theory Spec2Isabelle
  imports Complex_Main "HOL-Library.Char_ord" "HOL-Library.List_Lexorder" "HOL-Library.Multiset"
begin


section \<open>The diffusion engine: process supervisor and request dispatcher (engine.py)\<close>

subsection \<open>Data model\<close>

text \<open>
  Python values that travel in envelopes. An envelope is the dictionary that
  \<open>Serializer.deserialize\<close> yields; the serialised blob on a channel is identified with
  that dictionary (serialisation is a collaborator outside this repository), so pushing the
  blob back is pushing the dictionary back. A dictionary is an association list read with
  \<open>map_of\<close>.
\<close>

datatype pyval = PNone | PInt int | PStr string

type_synonym envelope = "(string \<times> pyval) list"

datatype exn =
    IOError string
  | TimeoutError string
  | KeyError string
  | ValueError string
  | TypeError string
  | IndexError string
  | ZeroDivisionError string
  | ConfigurationError string
  | ResolveError pyval
  | Remote string pyval

datatype 'a outcome = Returned 'a | Raised exn

text \<open>
  The worker process as the supervisor sees it: whether it is alive and how many
  forced-kill signals (\<open>process.terminate()\<close>) were sent to it.
\<close>

record process_handle =
  alive :: bool
  terms :: nat

text \<open>
  The attributes of a \<open>DiffusionEngine\<close>. An attribute that the code tests with
  \<open>hasattr\<close> is an option. \<open>now\<close> is the wall clock in seconds and \<open>error_log\<close> collects
  what is passed to \<open>logger.error\<close>.
\<close>

record engine =
  request :: int
  process :: "process_handle option"
  instructions_q :: "envelope list option"
  results_q :: "envelope list option"
  intermediates_q :: "envelope list option"
  now :: real
  error_log :: "pyval list"

text \<open>
  What the worker does while the controller sleeps: it may exit, put result and progress
  envelopes on its channels and take instructions off the instructions channel. It can do
  nothing else to the controller's state; a dead worker stays dead.
\<close>

record tick =
  exits :: bool
  delivered :: "envelope list"
  progressed :: "envelope list"
  taken :: nat

text \<open>
  The collaborators of the engine: the worker's behaviour, the constant
  \<open>DiffusionEngineProcess.POLLING_DELAY_MS\<close> (process.py is not part of the sources at
  hand) and pibble's \<open>resolve\<close>, which maps the name of an error kind to its class
  (\<open>None\<close> when it raises).
\<close>

record world =
  worker :: "engine \<Rightarrow> tick"
  POLLING_DELAY_MS :: real
  resolve :: "pyval \<Rightarrow> string option"

definition time_sleep :: "world \<Rightarrow> real \<Rightarrow> engine \<Rightarrow> engine" where
  "time_sleep w d e =
     (let e1 = e\<lparr>now := now e + d\<rparr>; t = worker w e1 in
      e1\<lparr>process := map_option (\<lambda>p. p\<lparr>alive := alive p \<and> \<not> exits t\<rparr>) (process e1),
         results_q := map_option (\<lambda>q. q @ delivered t) (results_q e1),
         intermediates_q := map_option (\<lambda>q. q @ progressed t) (intermediates_q e1),
         instructions_q := map_option (drop (taken t)) (instructions_q e1)\<rparr>)"

text \<open>\<open>hasattr(self, "process") and self.process.is_alive()\<close>\<close>

definition process_is_alive :: "engine \<Rightarrow> bool" where
  "process_is_alive e = (case process e of None \<Rightarrow> False | Some p \<Rightarrow> alive p)"

text \<open>\<open>self.process.terminate()\<close>: one more forced-kill signal is sent.\<close>

definition process_terminate :: "engine \<Rightarrow> engine" where
  "process_terminate e = e\<lparr>process := map_option (\<lambda>p. p\<lparr>terms := Suc (terms p)\<rparr>) (process e)\<rparr>"

subsection \<open>terminate_process\<close>

text \<open>
  \<open>dispatch(action, payload)\<close> as it runs while the worker is alive: \<open>spawn_process\<close>
  with \<open>fail_when_redundant=False\<close> returns at once, the counter is incremented, and the
  \<open>instructions\<close> property raises when the channel is missing (the process is alive).
\<close>

definition dispatch_alive :: "string \<Rightarrow> pyval \<Rightarrow> engine \<Rightarrow> int outcome \<times> engine" where
  "dispatch_alive action payload e =
     (let e1 = e\<lparr>request := request e + 1\<rparr>;
          envelope = [(''id'', PInt (request e1)), (''action'', PStr action), (''payload'', payload)]
      in case instructions_q e1 of
           None \<Rightarrow> (Raised (IOError ''Queue 'instructions' is missing, but process is alive.''), e1)
         | Some q \<Rightarrow> (Returned (request e1), e1\<lparr>instructions_q := Some (q @ [envelope])\<rparr>))"

text \<open>
  The polling loop of \<open>terminate_process\<close>. It runs on after the first fixed delay:
  \<^verbatim>\<open>
  while self.process.is_alive():
      waited = (datetime.datetime.now() - start).total_seconds()
      if timeout is not None and timeout > waited:
          self.process.terminate()
          time.sleep(sleep_time)
          break
      time.sleep(sleep_time)
  \<close>
  The loop need not end (a worker that ignores "stop", with no timeout), so it is a
  partial function: \<open>None\<close> is a loop that runs forever.
\<close>

partial_function (option) terminate_poll ::
  "world \<Rightarrow> real option \<Rightarrow> real \<Rightarrow> real \<Rightarrow> engine \<Rightarrow> engine option" where
  "terminate_poll w timeout start sleep_time e =
     (if process_is_alive e then
        (let waited = now e - start in
         if (case timeout of None \<Rightarrow> False | Some t \<Rightarrow> t > waited)
         then Some (time_sleep w sleep_time (process_terminate e))
         else terminate_poll w timeout start sleep_time (time_sleep w sleep_time e))
      else Some e)"

text \<open>
  The four \<open>del\<close> statements that end \<open>terminate_process\<close>. Once \<open>self.process\<close> is
  deleted, \<open>is_alive\<close> is false in each channel deleter, so each channel that exists is
  deleted (lemma \<open>teardown_by_deleters\<close> below).
\<close>

definition teardown :: "engine \<Rightarrow> engine" where
  "teardown e = e\<lparr>process := None, intermediates_q := None, results_q := None, instructions_q := None\<rparr>"

definition terminate_process :: "world \<Rightarrow> real option \<Rightarrow> engine \<Rightarrow> (unit outcome \<times> engine) option" where
  "terminate_process w timeout e =
     (case process e of
        None \<Rightarrow> Some (Returned (), e)
      | Some p \<Rightarrow>
          (let sleep_time = POLLING_DELAY_MS w / 500 in
           if alive p then
             (let start = now e in
              case dispatch_alive ''stop'' PNone e of
                (Raised x, e1) \<Rightarrow> Some (Raised x, e1)
              | (Returned _, e1) \<Rightarrow>
                  (case terminate_poll w timeout start sleep_time (time_sleep w sleep_time e1) of
                     None \<Rightarrow> None
                   | Some e2 \<Rightarrow>
                       (let e3 = (if process_is_alive e2
                                  then time_sleep w sleep_time (process_terminate e2) else e2)
                        in if process_is_alive e3
                           then Some (Raised (IOError ''Couldn't terminate process''), e3)
                           else Some (Returned (), teardown e3))))
           else Some (Returned (), teardown e)))"

subsection \<open>Liveness, channels, spawning and dispatch\<close>

definition is_alive :: "world \<Rightarrow> engine \<Rightarrow> (bool outcome \<times> engine) option" where
  "is_alive w e =
     (case process e of
        None \<Rightarrow> Some (Returned False, e)
      | Some p \<Rightarrow>
          if \<not> alive p then
            (case terminate_process w (Some 10) e of
               None \<Rightarrow> None
             | Some (Raised x, e1) \<Rightarrow> Some (Raised x, e1)
             | Some (Returned _, e1) \<Rightarrow> Some (Returned False, e1))
          else Some (Returned True, e))"

datatype qname = Instructions | Results | Intermediates

fun queue_name :: "qname \<Rightarrow> string" where
  "queue_name Instructions = ''instructions''"
| "queue_name Results = ''results''"
| "queue_name Intermediates = ''intermediates''"

fun get_queue :: "qname \<Rightarrow> engine \<Rightarrow> envelope list option" where
  "get_queue Instructions e = instructions_q e"
| "get_queue Results e = results_q e"
| "get_queue Intermediates e = intermediates_q e"

fun set_queue :: "qname \<Rightarrow> envelope list option \<Rightarrow> engine \<Rightarrow> engine" where
  "set_queue Instructions q e = e\<lparr>instructions_q := q\<rparr>"
| "set_queue Results q e = e\<lparr>results_q := q\<rparr>"
| "set_queue Intermediates q e = e\<lparr>intermediates_q := q\<rparr>"

definition check_get_queue :: "world \<Rightarrow> qname \<Rightarrow> engine \<Rightarrow> (envelope list outcome \<times> engine) option" where
  "check_get_queue w n e =
     (case get_queue n e of
        Some q \<Rightarrow> Some (Returned q, e)
      | None \<Rightarrow>
          (case is_alive w e of
             None \<Rightarrow> None
           | Some (Raised x, e1) \<Rightarrow> Some (Raised x, e1)
           | Some (Returned True, e1) \<Rightarrow>
               Some (Raised (IOError (''Queue '' @ [CHR 0x27] @ queue_name n @ [CHR 0x27]
                                      @ '' is missing, but process is alive.'')), e1)
           | Some (Returned False, e1) \<Rightarrow> Some (Returned [], set_queue n (Some []) e1)))"

definition check_delete_queue :: "world \<Rightarrow> qname \<Rightarrow> engine \<Rightarrow> (unit outcome \<times> engine) option" where
  "check_delete_queue w n e =
     (case get_queue n e of
        None \<Rightarrow> Some (Returned (), e)
      | Some q \<Rightarrow>
          (case is_alive w e of
             None \<Rightarrow> None
           | Some (Raised x, e1) \<Rightarrow> Some (Raised x, e1)
           | Some (Returned True, e1) \<Rightarrow>
               Some (Raised (IOError (''Attempted to close queue '' @ queue_name n
                                      @ '' while process is still alive'')), e1)
           | Some (Returned False, e1) \<Rightarrow> Some (Returned (), set_queue n None e1)))"

text \<open>\<open>self.<channel>.put(item)\<close>: the property yields the channel, the item is appended.\<close>

definition queue_put :: "world \<Rightarrow> qname \<Rightarrow> envelope \<Rightarrow> engine \<Rightarrow> (unit outcome \<times> engine) option" where
  "queue_put w n item e =
     (case check_get_queue w n e of
        None \<Rightarrow> None
      | Some (Raised x, e1) \<Rightarrow> Some (Raised x, e1)
      | Some (Returned q, e1) \<Rightarrow> Some (Returned (), set_queue n (Some (q @ [item])) e1))"

text \<open>
  \<open>spawn_process\<close>. The three channel properties are read in the order instructions,
  results, intermediates; \<open>process.start()\<close> makes the worker alive, and whether it
  survives the fixed delay is the world's choice. The \<open>except\<close> clause runs
  \<open>terminate_process()\<close> (default timeout 10) and re-raises.
\<close>

definition spawn_process :: "world \<Rightarrow> bool \<Rightarrow> engine \<Rightarrow> (unit outcome \<times> engine) option" where
  "spawn_process w fail_when_redundant e =
     (if process_is_alive e then
        (if fail_when_redundant
         then Some (Raised (IOError ''spawn_process called while a process is already running''), e)
         else Some (Returned (), e))
      else
        (case check_get_queue w Instructions e of
           None \<Rightarrow> None
         | Some (Raised x, e1) \<Rightarrow> Some (Raised x, e1)
         | Some (Returned _, e1) \<Rightarrow>
        (case check_get_queue w Results e1 of
           None \<Rightarrow> None
         | Some (Raised x, e2) \<Rightarrow> Some (Raised x, e2)
         | Some (Returned _, e2) \<Rightarrow>
        (case check_get_queue w Intermediates e2 of
           None \<Rightarrow> None
         | Some (Raised x, e3) \<Rightarrow> Some (Raised x, e3)
         | Some (Returned _, e3) \<Rightarrow>
             (let poll_delay_seconds = POLLING_DELAY_MS w / 250;
                  e4 = e3\<lparr>process := Some \<lparr>alive = True, terms = 0\<rparr>\<rparr>;
                  e5 = time_sleep w poll_delay_seconds e4;
                  handler = (\<lambda>ex e6.
                     case terminate_process w (Some 10) e6 of
                       None \<Rightarrow> None
                     | Some (Raised x, e7) \<Rightarrow> Some (Raised x, e7)
                     | Some (Returned _, e7) \<Rightarrow> Some (Raised ex, e7))
              in case is_alive w e5 of
                   None \<Rightarrow> None
                 | Some (Raised x, e6) \<Rightarrow> handler x e6
                 | Some (Returned False, e6) \<Rightarrow>
                     handler (IOError ''Engine process died before it became responsive'') e6
                 | Some (Returned True, e6) \<Rightarrow> Some (Returned (), e6))))))"

definition dispatch :: "world \<Rightarrow> string \<Rightarrow> pyval \<Rightarrow> bool \<Rightarrow> engine \<Rightarrow> (int outcome \<times> engine) option" where
  "dispatch w action payload spawn e =
     (case (if spawn then spawn_process w False e else Some (Returned (), e)) of
        None \<Rightarrow> None
      | Some (Raised x, e1) \<Rightarrow> Some (Raised x, e1)
      | Some (Returned _, e1) \<Rightarrow>
          (let e2 = e1\<lparr>request := request e1 + 1\<rparr>;
               envelope = [(''id'', PInt (request e2)), (''action'', PStr action), (''payload'', payload)]
           in case queue_put w Instructions envelope e2 of
                None \<Rightarrow> None
              | Some (Raised x, e3) \<Rightarrow> Some (Raised x, e3)
              | Some (Returned _, e3) \<Rightarrow> Some (Returned (request e2), e3)))"

subsection \<open>wait\<close>

text \<open>
  Draining the results channel: \<open>self.results.get_nowait()\<close> until \<open>Empty\<close>. The
  property raises when the channel is missing (the worker was just found alive).
\<close>

definition drain_results :: "world \<Rightarrow> engine \<Rightarrow> (envelope list outcome \<times> engine) option" where
  "drain_results w e =
     (case check_get_queue w Results e of
        None \<Rightarrow> None
      | Some (Raised x, e1) \<Rightarrow> Some (Raised x, e1)
      | Some (Returned q, e1) \<Rightarrow> Some (Returned q, e1\<lparr>results_q := Some []\<rparr>))"

text \<open>\<open>logger.error(f"Couldn't parse result {result}"); raise\<close>\<close>

definition parse_failure :: "exn \<Rightarrow> engine \<Rightarrow> 'a outcome \<times> engine" where
  "parse_failure x e = (Raised x, e\<lparr>error_log := error_log e @ [PStr ''Couldn't parse result'']\<rparr>)"

text \<open>
  The body of the \<open>for\<close> loop of \<open>wait\<close> for one drained envelope; \<open>to_raise\<close> and
  \<open>to_return\<close> are the loop's two variables (\<open>PNone\<close> is Python's \<open>None\<close>).
\<close>

definition wait_step ::
  "world \<Rightarrow> int \<Rightarrow> envelope \<Rightarrow> exn option \<times> pyval \<Rightarrow> engine
     \<Rightarrow> ((exn option \<times> pyval) outcome \<times> engine) option" where
  "wait_step w ident result acc e =
     (let (to_raise, to_return) = acc; result_deserialized = map_of result in
      case result_deserialized ''id'' of
        None \<Rightarrow> Some (parse_failure (KeyError ''id'') e)
      | Some i \<Rightarrow>
          if i = PInt ident then
            (case result_deserialized ''error'' of
               Some err \<Rightarrow>
                 (case resolve w err of
                    None \<Rightarrow> Some (parse_failure (ResolveError err) e)
                  | Some kind \<Rightarrow>
                      (case result_deserialized ''message'' of
                         None \<Rightarrow> Some (parse_failure (KeyError ''message'') e)
                       | Some message \<Rightarrow>
                           (let e1 = (case result_deserialized ''trace'' of
                                        None \<Rightarrow> e
                                      | Some trace \<Rightarrow> e\<lparr>error_log := error_log e @ [trace]\<rparr>)
                            in Some (Returned (Some (Remote kind message), to_return), e1))))
             | None \<Rightarrow>
                 (case result_deserialized ''result'' of
                    None \<Rightarrow> Some (parse_failure (KeyError ''result'') e)
                  | Some r \<Rightarrow> Some (Returned (to_raise, r), e)))
          else
            (case queue_put w Results result e of
               None \<Rightarrow> None
             | Some (Raised x, e1) \<Rightarrow> Some (parse_failure x e1)
             | Some (Returned _, e1) \<Rightarrow> Some (Returned (to_raise, to_return), e1)))"

fun wait_scan ::
  "world \<Rightarrow> int \<Rightarrow> envelope list \<Rightarrow> exn option \<times> pyval \<Rightarrow> engine
     \<Rightarrow> ((exn option \<times> pyval) outcome \<times> engine) option" where
  "wait_scan w ident [] acc e = Some (Returned acc, e)"
| "wait_scan w ident (result # rest) acc e =
     (case wait_step w ident result acc e of
        None \<Rightarrow> None
      | Some (Raised x, e1) \<Rightarrow> Some (Raised x, e1)
      | Some (Returned acc1, e1) \<Rightarrow> wait_scan w ident rest acc1 e1)"

text \<open>
  One pass of the \<open>while True\<close> loop of \<open>wait\<close> up to the two tests that end it;
  \<open>Returned None\<close> is a pass that neither raised nor returned.
\<close>

definition wait_pass :: "world \<Rightarrow> int \<Rightarrow> engine \<Rightarrow> (pyval option outcome \<times> engine) option" where
  "wait_pass w ident e =
     (case is_alive w e of
        None \<Rightarrow> None
      | Some (Raised x, e1) \<Rightarrow> Some (Raised x, e1)
      | Some (Returned False, e1) \<Rightarrow> Some (Raised (IOError ''Process died while waiting for result.''), e1)
      | Some (Returned True, e1) \<Rightarrow>
          (case drain_results w e1 of
             None \<Rightarrow> None
           | Some (Raised x, e2) \<Rightarrow> Some (Raised x, e2)
           | Some (Returned all_results, e2) \<Rightarrow>
               (case wait_scan w ident all_results (None, PNone) e2 of
                  None \<Rightarrow> None
                | Some (Raised x, e3) \<Rightarrow> Some (Raised x, e3)
                | Some (Returned (to_raise, to_return), e3) \<Rightarrow>
                    (case to_raise of
                       Some x \<Rightarrow> Some (Raised x, e3)
                     | None \<Rightarrow>
                         if to_return \<noteq> PNone then Some (Returned (Some to_return), e3)
                         else Some (Returned None, e3)))))"

text \<open>
  \<open>wait(id, timeout)\<close>: passes separated by the fixed backoff, until one raises or
  returns or the timeout is exceeded. \<open>None\<close> is a wait that polls forever.
\<close>

partial_function (option) wait_loop ::
  "world \<Rightarrow> int \<Rightarrow> real option \<Rightarrow> real \<Rightarrow> engine \<Rightarrow> (pyval outcome \<times> engine) option" where
  "wait_loop w ident timeout start e =
     (case wait_pass w ident e of
        None \<Rightarrow> None
      | Some (Raised x, e1) \<Rightarrow> Some (Raised x, e1)
      | Some (Returned (Some r), e1) \<Rightarrow> Some (Returned r, e1)
      | Some (Returned None, e1) \<Rightarrow>
          (let e2 = time_sleep w (POLLING_DELAY_MS w / 500) e1 in
           if (case timeout of None \<Rightarrow> False | Some t \<Rightarrow> now e2 - start > t)
           then Some (Raised (TimeoutError ''Timed out waiting for response.''), e2)
           else wait_loop w ident timeout start e2))"

definition wait :: "world \<Rightarrow> int \<Rightarrow> real option \<Rightarrow> engine \<Rightarrow> (pyval outcome \<times> engine) option" where
  "wait w ident timeout e = wait_loop w ident timeout (now e) e"

subsection \<open>Predicates on envelopes used to state the properties of wait\<close>

text \<open>\<open>result_deserialized["id"] == id\<close>\<close>

definition matches :: "int \<Rightarrow> envelope \<Rightarrow> bool" where
  "matches ident r = (map_of r ''id'' = Some (PInt ident))"

text \<open>\<open>"error" in result_deserialized\<close>\<close>

definition carries_error :: "envelope \<Rightarrow> bool" where
  "carries_error r = (map_of r ''error'' \<noteq> None)"

text \<open>
  An envelope that the loop body of \<open>wait(ident)\<close> handles without raising: it has an id,
  and if the id is the awaited one it has either an error kind that resolves together with
  a message, or a result.
\<close>

definition parses :: "world \<Rightarrow> int \<Rightarrow> envelope \<Rightarrow> bool" where
  "parses w ident r =
     (map_of r ''id'' \<noteq> None \<and>
      (matches ident r \<longrightarrow>
         (case map_of r ''error'' of
            Some err \<Rightarrow> resolve w err \<noteq> None \<and> map_of r ''message'' \<noteq> None
          | None \<Rightarrow> map_of r ''result'' \<noteq> None)))"

text \<open>\<open>resolve(result_deserialized["error"])(result_deserialized["message"])\<close>\<close>

definition remote_of :: "world \<Rightarrow> envelope \<Rightarrow> exn" where
  "remote_of w r = Remote (the (resolve w (the (map_of r ''error'')))) (the (map_of r ''message''))"

text \<open>The values of the \<open>trace\<close> fields of a list of envelopes, in order.\<close>

definition traces_of :: "envelope list \<Rightarrow> pyval list" where
  "traces_of rs = concat (map (\<lambda>r. case map_of r ''trace'' of None \<Rightarrow> [] | Some t \<Rightarrow> [t]) rs)"

subsection \<open>Sample worlds and engines\<close>

text \<open>
  A worker that does nothing while the controller sleeps, with a polling delay of 10 ms and
  a \<open>resolve\<close> that knows every error kind named by a string.
\<close>

definition idle_world :: world where
  "idle_world = \<lparr>worker = (\<lambda>e. \<lparr>exits = False, delivered = [], progressed = [], taken = 0\<rparr>),
                 POLLING_DELAY_MS = 10,
                 resolve = (\<lambda>v. case v of PStr s \<Rightarrow> Some s | _ \<Rightarrow> None)\<rparr>"

text \<open>
  A worker that needs one second to honour "stop" (the clock starts at 0) and exits at once
  when it is sent a forced-kill signal.
\<close>

definition slow_stop_world :: world where
  "slow_stop_world =
     \<lparr>worker = (\<lambda>e. \<lparr>exits = (now e \<ge> 1 \<or> (case process e of None \<Rightarrow> False | Some p \<Rightarrow> terms p \<ge> 1)),
                       delivered = [], progressed = [], taken = 0\<rparr>),
      POLLING_DELAY_MS = 10,
      resolve = (\<lambda>v. case v of PStr s \<Rightarrow> Some s | _ \<Rightarrow> None)\<rparr>"

definition result_envelope :: "int \<Rightarrow> pyval \<Rightarrow> envelope" where
  "result_envelope i r = [(''id'', PInt i), (''result'', r)]"

text \<open>An engine with a running worker, three requests dispatched and the given results channel.\<close>

definition running_engine :: "envelope list \<Rightarrow> engine" where
  "running_engine q =
     \<lparr>request = 3, process = Some \<lparr>alive = True, terms = 0\<rparr>, instructions_q = Some [],
      results_q = Some q, intermediates_q = Some [], now = 0, error_log = []\<rparr>"

text \<open>The same engine after its worker has died.\<close>

definition orphaned_engine :: "envelope list \<Rightarrow> engine" where
  "orphaned_engine q = (running_engine q)\<lparr>process := Some \<lparr>alive = False, terms = 0\<rparr>\<rparr>"


section \<open>The pipeline manager (manager.py)\<close>

subsection \<open>Cache keys\<close>

text \<open>
  Python's \<open>str\<close> on an integer and \<open>sep.join(list)\<close>. Strings are compared as Python
  compares them, character by character with the shorter prefix first, so \<open>sorted\<close> with
  a key is the stable \<open>sort_key\<close>.
\<close>

definition digit_char :: "nat \<Rightarrow> char" where
  "digit_char d = ''0123456789'' ! d"

fun digits :: "nat \<Rightarrow> string" where
  "digits n = (if n < 10 then [digit_char n] else digits (n div 10) @ [digit_char (n mod 10)])"

declare digits.simps [simp del]

definition str_int :: "int \<Rightarrow> string" where
  "str_int i = (if i < 0 then CHR ''-'' # digits (nat (- i)) else digits (nat i))"

fun join :: "string \<Rightarrow> string list \<Rightarrow> string" where
  "join sep [] = []"
| "join sep [x] = x"
| "join sep (x # y # ys) = x @ sep @ join sep (y # ys)"




text \<open>\<open>get_vae_key\<close>: \<open>md5(str(size).encode("utf-8")).hexdigest()\<close>\<close>

definition get_vae_key :: "(string \<Rightarrow> string) \<Rightarrow> int \<Rightarrow> string" where
  "get_vae_key md5 size_px = md5 (str_int size_px)"

text \<open>
  Names for stating the properties of the keys: the text of one weight, the text that is
  hashed, strings free of the three separators, and the value of a decimal numeral.
\<close>

definition weight_text :: "('w \<Rightarrow> string) \<Rightarrow> string \<times> 'w \<Rightarrow> string" where
  "weight_text str_weight lw = join ''='' [fst lw, str_weight (snd lw)]"

definition canonical_text ::
  "('w \<Rightarrow> string) \<Rightarrow> int \<Rightarrow> (string \<times> 'w) list \<Rightarrow> (string \<times> 'w) list \<Rightarrow> string list \<Rightarrow> string" where
  "canonical_text str_weight size_px lora lycoris inversion =
     join ''-'' [str_int size_px,
                 join '':'' (map (weight_text str_weight) (sort_key fst lora)),
                 join '':'' (map (weight_text str_weight) (sort_key fst lycoris)),
                 join '':'' (sort inversion)]"






subsection \<open>Pipelines, configuration and the state of the manager\<close>

datatype variant = Base | Refiner | Inpainter

text \<open>
  A constructed pipeline object: \<open>instance_id\<close> tells instances apart (it is the number of
  constructions that preceded this one), \<open>location\<close> and \<open>precision\<close> are the device and
  dtype its weights are on.
\<close>

record pipe =
  instance_id :: nat
  role :: variant
  location :: string
  precision :: string
  engine_size :: int

text \<open>
  Modelled from the spec: the \<open>to(device_or_host, precision)\<close> method of the pipeline class
  (enfugue/diffusion/pipeline.py is not part of the sources at hand). Offloading is to
  "relocate a loaded pipeline's weights to host memory without destroying its structure":
  the object stays the same, its device and, when given, its dtype change.
\<close>

definition pipe_to :: "string \<Rightarrow> string option \<Rightarrow> pipe \<Rightarrow> pipe" where
  "pipe_to dev torch_dtype p =
     p\<lparr>location := dev, precision := (case torch_dtype of None \<Rightarrow> precision p | Some d \<Rightarrow> d)\<rparr>"

text \<open>The entries of the \<open>APIConfiguration\<close> that the modelled code reads; \<open>None\<close> is an absent key.\<close>

record config =
  enfugue_size :: "int option"
  enfugue_chunk_size :: "int option"
  enfugue_pipeline_switch :: "string option"
  enfugue_refiner :: "string option"
  enfugue_refiner_strength :: "real option"
  enfugue_refiner_guidance_scale :: "real option"
  enfugue_refiner_aesthetic_score :: "real option"
  enfugue_refiner_negative_aesthetic_score :: "real option"
  enfugue_dtype :: "string option"

text \<open>
  The attributes of a \<open>DiffusionPipelineManager\<close>; \<open>x_attr\<close> is the Python attribute
  \<open>_x\<close>, and \<open>None\<close> is an attribute that \<open>hasattr\<close> does not find. \<open>tenssort_is_enabled\<close>
  is the attribute that the last branch of the engine-size test of \<open>__call__\<close> assigns.
  \<open>constructions\<close> counts the runs of the three lazy constructors.
\<close>

record manager =
  configuration :: config
  pipeline_attr :: "pipe option"
  pipeline_is_offloaded_attr :: "bool option"
  refiner_pipeline_attr :: "pipe option"
  refiner_pipeline_is_offloaded_attr :: "bool option"
  inpainter_pipeline_attr :: "pipe option"
  inpainter_pipeline_is_offloaded_attr :: "bool option"
  lora_attr :: "(string \<times> real) list option"
  lycoris_attr :: "(string \<times> real) list option"
  inversion_attr :: "string list option"
  size_attr :: "int option"
  refiner_size_attr :: "int option"
  inpainter_size_attr :: "int option"
  chunking_size_attr :: "int option"
  tensorrt_enabled_attr :: "bool option"
  tenssort_is_enabled :: "bool option"
  pipeline_switch_mode_attr :: "string option option"
  refiner_attr :: "string option option"
  refiner_strength_attr :: "real option"
  refiner_guidance_scale_attr :: "real option"
  refiner_aesthetic_score_attr :: "real option"
  refiner_negative_aesthetic_score_attr :: "real option"
  device_attr :: "string option"
  torch_dtype_attr :: "string option"
  keepalive_thread_attr :: "bool option"
  constructions :: nat

subsection \<open>Images, call arguments and results\<close>

text \<open>
  A PIL image is known by its provenance and its size: \<open>Picture n w h\<close> is an image that a
  pipeline produced, \<open>Resized im w h\<close> is \<open>im.resize((w, h))\<close>.
\<close>

datatype image = Picture nat int int | Resized image int int

fun image_size :: "image \<Rightarrow> int \<times> int" where
  "image_size (Picture n w h) = (w, h)"
| "image_size (Resized im w h) = (w, h)"

definition resize :: "int \<times> int \<Rightarrow> image \<Rightarrow> image" where
  "resize wh im = Resized im (fst wh) (snd wh)"

text \<open>
  A latent callback is either a function of the caller or the closure \<open>resize_callback\<close>
  that \<open>__call__\<close> defines; the closure reads \<open>original_callback\<close>, \<open>width\<close> and \<open>height\<close>
  from the frame of \<open>__call__\<close> when it is called.
\<close>

datatype callback = User_callback nat | Resize_callback

datatype kwval = KNone | KInt int | KReal real | KStr string | KImage image | KCallback callback

type_synonym kwargs = "string \<rightharpoonup> kwval"

record frame =
  original_callback :: "kwval option"
  width :: int
  height :: int

record generation =
  images :: "image list"
  nsfw_content_detected :: "bool list option"

text \<open>The named parameters of \<open>__call__\<close>.\<close>

record call_params =
  refiner_strength_arg :: "real option"
  refiner_guidance_scale_arg :: "real option"
  refiner_aesthetic_score_arg :: "real option"
  refiner_negative_aesthetic_score_arg :: "real option"
  scale_to_refiner_size :: bool

text \<open>
  The collaborators of the manager, outside the repository's core: whether TensorRT can be
  imported and whether the engine files of a variant exist, the part of a lazy constructor
  that fetches the checkpoint and the part that builds the pipeline object (\<open>None\<close> is
  success), the pipeline call, the refiner call (it sees the frame, since it may call the
  closure), a latent callback called by \<open>__call__\<close> itself, the device that torch prefers,
  whether torch is a ROCm build, the directories for auxiliary weights, and the tests of
  whether a model is an SDXL model.
\<close>

record backend =
  tensorrt_is_supported :: bool
  engines_exist :: "variant \<Rightarrow> manager \<Rightarrow> bool"
  fetch_checkpoint :: "variant \<Rightarrow> manager \<Rightarrow> exn option"
  construct :: "variant \<Rightarrow> manager \<Rightarrow> exn option"
  run_pipeline :: "pipe \<Rightarrow> kwargs \<Rightarrow> exn + generation"
  run_refiner :: "pipe \<Rightarrow> image \<Rightarrow> kwargs \<Rightarrow> frame \<Rightarrow> exn + image list"
  run_callback :: "callback \<Rightarrow> image list \<Rightarrow> exn option"
  optimal_device :: string
  hip :: bool
  engine_lora_dir :: string
  engine_lycoris_dir :: string
  sdxl :: "variant \<Rightarrow> manager \<Rightarrow> bool"

subsection \<open>Properties that read the configuration\<close>

text \<open>
  A caching getter whose cached attribute no other code tests is a function of the state:
  the attribute when present, else the configured value, else the default. The getter of
  \<open>size\<close> is different, its cache is tested by the setter, so it returns the new state.
\<close>

definition DEFAULT_CHUNK :: int where "DEFAULT_CHUNK = 64"
definition DEFAULT_SIZE :: int where "DEFAULT_SIZE = 512"

definition size_getter :: "manager \<Rightarrow> int \<times> manager" where
  "size_getter m =
     (case size_attr m of
        Some s \<Rightarrow> (s, m)
      | None \<Rightarrow>
          (let s = (case enfugue_size (configuration m) of None \<Rightarrow> DEFAULT_SIZE | Some c \<Rightarrow> c)
           in (s, m\<lparr>size_attr := Some s\<rparr>)))"

definition chunking_size :: "manager \<Rightarrow> int" where
  "chunking_size m =
     (case chunking_size_attr m of
        Some c \<Rightarrow> c
      | None \<Rightarrow> (case enfugue_chunk_size (configuration m) of None \<Rightarrow> DEFAULT_CHUNK | Some c \<Rightarrow> c))"

definition pipeline_switch_mode :: "manager \<Rightarrow> string option" where
  "pipeline_switch_mode m =
     (case pipeline_switch_mode_attr m of
        Some mode \<Rightarrow> mode
      | None \<Rightarrow> (case enfugue_pipeline_switch (configuration m) of
                   None \<Rightarrow> Some ''offload'' | Some c \<Rightarrow> Some c))"

definition refiner :: "manager \<Rightarrow> string option" where
  "refiner m = (case refiner_attr m of Some r \<Rightarrow> r | None \<Rightarrow> enfugue_refiner (configuration m))"

definition refiner_strength :: "manager \<Rightarrow> real" where
  "refiner_strength m =
     (case refiner_strength_attr m of
        Some s \<Rightarrow> s
      | None \<Rightarrow> (case enfugue_refiner_strength (configuration m) of None \<Rightarrow> 3 / 10 | Some c \<Rightarrow> c))"

definition refiner_guidance_scale :: "manager \<Rightarrow> real" where
  "refiner_guidance_scale m =
     (case refiner_guidance_scale_attr m of
        Some s \<Rightarrow> s
      | None \<Rightarrow> (case enfugue_refiner_guidance_scale (configuration m) of None \<Rightarrow> 5 | Some c \<Rightarrow> c))"

definition refiner_aesthetic_score :: "manager \<Rightarrow> real" where
  "refiner_aesthetic_score m =
     (case refiner_aesthetic_score_attr m of
        Some s \<Rightarrow> s
      | None \<Rightarrow> (case enfugue_refiner_aesthetic_score (configuration m) of None \<Rightarrow> 6 | Some c \<Rightarrow> c))"

definition refiner_negative_aesthetic_score :: "manager \<Rightarrow> real" where
  "refiner_negative_aesthetic_score m =
     (case refiner_negative_aesthetic_score_attr m of
        Some s \<Rightarrow> s
      | None \<Rightarrow> (case enfugue_refiner_negative_aesthetic_score (configuration m) of
                   None \<Rightarrow> 5 / 2 | Some c \<Rightarrow> c))"

definition device :: "backend \<Rightarrow> manager \<Rightarrow> string" where
  "device b m = (case device_attr m of Some d \<Rightarrow> d | None \<Rightarrow> optimal_device b)"

text \<open>
  The getter of \<open>dtype\<close>: by device type when nothing was set, from the configuration for
  another device type, where a value other than the four names raises.
\<close>

definition dtype :: "backend \<Rightarrow> manager \<Rightarrow> string outcome" where
  "dtype b m =
     (case torch_dtype_attr m of
        Some d \<Rightarrow> Returned d
      | None \<Rightarrow>
          if device b m = ''cpu'' then Returned ''bfloat16''
          else if device b m = ''mps'' then Returned ''float32''
          else if device b m = ''cuda'' then (if hip b then Returned ''float32'' else Returned ''float16'')
          else (let configuration_dtype =
                      (case enfugue_dtype (configuration m) of None \<Rightarrow> ''float16'' | Some c \<Rightarrow> c)
                in if configuration_dtype = ''float16'' \<or> configuration_dtype = ''half''
                   then Returned ''float16''
                   else if configuration_dtype = ''float32'' \<or> configuration_dtype = ''float''
                   then Returned ''float32''
                   else Raised (ConfigurationError
                          (''dtype incorrectly configured, use 'float16/half' or 'float32/float''
                           @ [CHR 0x27]))))"

definition lora :: "manager \<Rightarrow> (string \<times> real) list" where
  "lora m = (case lora_attr m of None \<Rightarrow> [] | Some l \<Rightarrow> l)"

definition lycoris :: "manager \<Rightarrow> (string \<times> real) list" where
  "lycoris m = (case lycoris_attr m of None \<Rightarrow> [] | Some l \<Rightarrow> l)"

definition inversion :: "manager \<Rightarrow> string list" where
  "inversion m = (case inversion_attr m of None \<Rightarrow> [] | Some l \<Rightarrow> l)"

text \<open>\<open>tensorrt_is_enabled\<close>: "By default this is always enabled."\<close>

definition tensorrt_is_enabled :: "manager \<Rightarrow> bool" where
  "tensorrt_is_enabled m = (case tensorrt_enabled_attr m of None \<Rightarrow> True | Some e \<Rightarrow> e)"

text \<open>
  \<open>tensorrt_is_ready\<close>: false without TensorRT; otherwise the engine directory is derived
  from the UNet key, which reads \<open>self.size\<close>, and the engine file is looked up.
\<close>

definition tensorrt_is_ready :: "backend \<Rightarrow> manager \<Rightarrow> bool \<times> manager" where
  "tensorrt_is_ready b m =
     (if \<not> tensorrt_is_supported b then (False, m)
      else (let (s, m1) = size_getter m in (engines_exist b Base m1, m1)))"

definition refiner_size :: "backend \<Rightarrow> manager \<Rightarrow> int \<times> manager" where
  "refiner_size b m =
     (case refiner_size_attr m of
        Some s \<Rightarrow> (s, m)
      | None \<Rightarrow>
          if sdxl b Base m \<and> \<not> sdxl b Refiner m then (512, m)
          else if \<not> sdxl b Base m \<and> sdxl b Refiner m then (1024, m)
          else size_getter m)"

definition inpainter_size :: "backend \<Rightarrow> manager \<Rightarrow> int \<times> manager" where
  "inpainter_size b m =
     (case inpainter_size_attr m of
        Some s \<Rightarrow> (s, m)
      | None \<Rightarrow>
          if sdxl b Base m \<and> \<not> sdxl b Inpainter m then (512, m)
          else if \<not> sdxl b Base m \<and> sdxl b Inpainter m then (1024, m)
          else size_getter m)"

subsection \<open>The keepalive thread\<close>

definition start_keepalive :: "manager \<Rightarrow> manager" where
  "start_keepalive m =
     (if keepalive_thread_attr m = None \<or> keepalive_thread_attr m = Some False
      then m\<lparr>keepalive_thread_attr := Some True\<rparr> else m)"

definition stop_keepalive :: "manager \<Rightarrow> manager" where
  "stop_keepalive m = m\<lparr>keepalive_thread_attr := None\<rparr>"

subsection \<open>Lazy construction, unloading, offloading and reloading\<close>

text \<open>
  The lazy constructor in the \<open>pipeline\<close> property. When \<open>_pipeline\<close> is absent it fetches
  the checkpoint, reads \<open>self.size\<close> and \<open>self.dtype\<close> (both cached), builds the object and
  stores \<open>pipeline.to(self.device)\<close>.
\<close>

definition pipeline :: "backend \<Rightarrow> manager \<Rightarrow> pipe outcome \<times> manager" where
  "pipeline b m =
     (case pipeline_attr m of
        Some p \<Rightarrow> (Returned p, m)
      | None \<Rightarrow>
          (case fetch_checkpoint b Base m of
             Some x \<Rightarrow> (Raised x, m)
           | None \<Rightarrow>
               (let (s, m1) = size_getter m in
                case dtype b m1 of
                  Raised x \<Rightarrow> (Raised x, m1)
                | Returned d \<Rightarrow>
                    (let m2 = m1\<lparr>torch_dtype_attr := Some d\<rparr> in
                     case construct b Base m2 of
                       Some x \<Rightarrow> (Raised x, m2)
                     | None \<Rightarrow>
                         (let p = pipe_to (device b m2) None
                                    \<lparr>instance_id = constructions m2, role = Base, location = ''cpu'',
                                     precision = d, engine_size = s\<rparr>
                          in (Returned p, m2\<lparr>pipeline_attr := Some p,
                                               constructions := Suc (constructions m2)\<rparr>))))))"

text \<open>The deleter of \<open>pipeline\<close> and \<open>unload_pipeline\<close>, which calls it when a pipeline is present.\<close>

definition pipeline_deleter :: "manager \<Rightarrow> manager" where
  "pipeline_deleter m =
     (case pipeline_attr m of
        Some p \<Rightarrow> m\<lparr>pipeline_attr := None, pipeline_is_offloaded_attr := None\<rparr>
      | None \<Rightarrow> m)"

definition unload_pipeline :: "manager \<Rightarrow> manager" where
  "unload_pipeline m = (if pipeline_attr m \<noteq> None then pipeline_deleter m else m)"

definition pipeline_is_offloaded :: "manager \<Rightarrow> bool" where
  "pipeline_is_offloaded m =
     (pipeline_attr m \<noteq> None \<and> (case pipeline_is_offloaded_attr m of None \<Rightarrow> False | Some f \<Rightarrow> f))"

definition offload_pipeline :: "manager \<Rightarrow> manager" where
  "offload_pipeline m =
     (if pipeline_attr m \<noteq> None \<and> \<not> pipeline_is_offloaded m
      then m\<lparr>pipeline_attr := map_option (pipe_to ''cpu'' (Some ''float32'')) (pipeline_attr m),
             pipeline_is_offloaded_attr := Some True\<rparr>
      else m)"

definition reload_pipeline :: "backend \<Rightarrow> manager \<Rightarrow> unit outcome \<times> manager" where
  "reload_pipeline b m =
     (if pipeline_is_offloaded m then
        (case dtype b m of
           Raised x \<Rightarrow> (Raised x, m)
         | Returned d \<Rightarrow>
             (Returned (), m\<lparr>torch_dtype_attr := Some d,
                              pipeline_attr := map_option (pipe_to (device b m) (Some d)) (pipeline_attr m),
                              pipeline_is_offloaded_attr := Some False\<rparr>))
      else (Returned (), m))"

text \<open>The refiner: its property raises when no refiner is set.\<close>

definition refiner_pipeline :: "backend \<Rightarrow> manager \<Rightarrow> pipe outcome \<times> manager" where
  "refiner_pipeline b m =
     (if refiner m = None \<or> refiner m = Some [] then (Raised (ValueError ''No refiner set''), m)
      else case refiner_pipeline_attr m of
        Some p \<Rightarrow> (Returned p, m)
      | None \<Rightarrow>
          (case fetch_checkpoint b Refiner m of
             Some x \<Rightarrow> (Raised x, m)
           | None \<Rightarrow>
               (let (s, m1) = refiner_size b m in
                case dtype b m1 of
                  Raised x \<Rightarrow> (Raised x, m1)
                | Returned d \<Rightarrow>
                    (let m2 = m1\<lparr>torch_dtype_attr := Some d\<rparr> in
                     case construct b Refiner m2 of
                       Some x \<Rightarrow> (Raised x, m2)
                     | None \<Rightarrow>
                         (let p = pipe_to (device b m2) None
                                    \<lparr>instance_id = constructions m2, role = Refiner, location = ''cpu'',
                                     precision = d, engine_size = s\<rparr>
                          in (Returned p, m2\<lparr>refiner_pipeline_attr := Some p,
                                               constructions := Suc (constructions m2)\<rparr>))))))"

definition refiner_pipeline_deleter :: "manager \<Rightarrow> manager" where
  "refiner_pipeline_deleter m =
     (case refiner_pipeline_attr m of
        Some p \<Rightarrow> m\<lparr>refiner_pipeline_attr := None, refiner_pipeline_is_offloaded_attr := None\<rparr>
      | None \<Rightarrow> m)"

definition unload_refiner :: "manager \<Rightarrow> manager" where
  "unload_refiner m = (if refiner_pipeline_attr m \<noteq> None then refiner_pipeline_deleter m else m)"

definition refiner_is_offloaded :: "manager \<Rightarrow> bool" where
  "refiner_is_offloaded m =
     (refiner_pipeline_attr m \<noteq> None
      \<and> (case refiner_pipeline_is_offloaded_attr m of None \<Rightarrow> False | Some f \<Rightarrow> f))"

definition offload_refiner :: "manager \<Rightarrow> manager" where
  "offload_refiner m =
     (if refiner_pipeline_attr m \<noteq> None \<and> \<not> refiner_is_offloaded m
      then m\<lparr>refiner_pipeline_attr := map_option (pipe_to ''cpu'' (Some ''float32'')) (refiner_pipeline_attr m),
             refiner_pipeline_is_offloaded_attr := Some True\<rparr>
      else m)"

definition reload_refiner :: "backend \<Rightarrow> manager \<Rightarrow> unit outcome \<times> manager" where
  "reload_refiner b m =
     (if refiner_is_offloaded m then
        (case dtype b m of
           Raised x \<Rightarrow> (Raised x, m)
         | Returned d \<Rightarrow>
             (Returned (), m\<lparr>torch_dtype_attr := Some d,
                              refiner_pipeline_attr :=
                                map_option (pipe_to (device b m) (Some d)) (refiner_pipeline_attr m),
                              refiner_pipeline_is_offloaded_attr := Some False\<rparr>))
      else (Returned (), m))"

text \<open>
  The inpainter. The choice of a default inpainting checkpoint belongs to the fetch. Its
  reload resets the flag before it moves the pipeline.
\<close>

definition inpainter_pipeline :: "backend \<Rightarrow> manager \<Rightarrow> pipe outcome \<times> manager" where
  "inpainter_pipeline b m =
     (case inpainter_pipeline_attr m of
        Some p \<Rightarrow> (Returned p, m)
      | None \<Rightarrow>
          (case fetch_checkpoint b Inpainter m of
             Some x \<Rightarrow> (Raised x, m)
           | None \<Rightarrow>
               (let (s, m1) = inpainter_size b m in
                case dtype b m1 of
                  Raised x \<Rightarrow> (Raised x, m1)
                | Returned d \<Rightarrow>
                    (let m2 = m1\<lparr>torch_dtype_attr := Some d\<rparr> in
                     case construct b Inpainter m2 of
                       Some x \<Rightarrow> (Raised x, m2)
                     | None \<Rightarrow>
                         (let p = pipe_to (device b m2) None
                                    \<lparr>instance_id = constructions m2, role = Inpainter, location = ''cpu'',
                                     precision = d, engine_size = s\<rparr>
                          in (Returned p, m2\<lparr>inpainter_pipeline_attr := Some p,
                                               constructions := Suc (constructions m2)\<rparr>))))))"

definition inpainter_pipeline_deleter :: "manager \<Rightarrow> manager" where
  "inpainter_pipeline_deleter m =
     (case inpainter_pipeline_attr m of
        Some p \<Rightarrow> m\<lparr>inpainter_pipeline_attr := None, inpainter_pipeline_is_offloaded_attr := None\<rparr>
      | None \<Rightarrow> m)"

definition unload_inpainter :: "manager \<Rightarrow> manager" where
  "unload_inpainter m = (if inpainter_pipeline_attr m \<noteq> None then inpainter_pipeline_deleter m else m)"

definition inpainter_is_offloaded :: "manager \<Rightarrow> bool" where
  "inpainter_is_offloaded m =
     (inpainter_pipeline_attr m \<noteq> None
      \<and> (case inpainter_pipeline_is_offloaded_attr m of None \<Rightarrow> False | Some f \<Rightarrow> f))"

definition offload_inpainter :: "manager \<Rightarrow> manager" where
  "offload_inpainter m =
     (if inpainter_pipeline_attr m \<noteq> None \<and> \<not> inpainter_is_offloaded m
      then m\<lparr>inpainter_pipeline_attr :=
               map_option (pipe_to ''cpu'' (Some ''float32'')) (inpainter_pipeline_attr m),
             inpainter_pipeline_is_offloaded_attr := Some True\<rparr>
      else m)"

definition reload_inpainter :: "backend \<Rightarrow> manager \<Rightarrow> unit outcome \<times> manager" where
  "reload_inpainter b m =
     (if inpainter_is_offloaded m then
        (let m1 = m\<lparr>inpainter_pipeline_is_offloaded_attr := Some False\<rparr> in
         case dtype b m1 of
           Raised x \<Rightarrow> (Raised x, m1)
         | Returned d \<Rightarrow>
             (Returned (), m1\<lparr>torch_dtype_attr := Some d,
                               inpainter_pipeline_attr :=
                                 map_option (pipe_to (device b m1) (Some d)) (inpainter_pipeline_attr m1)\<rparr>))
      else (Returned (), m))"


subsection \<open>Setters\<close>

text \<open>\<open>os.path.isabs\<close> and \<open>os.path.join\<close> of two components, on POSIX.\<close>

definition isabs :: "string \<Rightarrow> bool" where
  "isabs p = (p \<noteq> [] \<and> hd p = CHR ''/'')"

definition path_join :: "string \<Rightarrow> string \<Rightarrow> string" where
  "path_join a p =
     (if isabs p then p else if a = [] \<or> last a = CHR ''/'' then a @ p else a @ ''/'' @ p)"

text \<open>
  What can be assigned to \<open>lora\<close> and \<open>lycoris\<close>: \<open>None\<close>, a name, a (name, weight) tuple
  or a list of names and tuples. A name alone gets the weight 1, and a relative name is
  placed in the directory of the weight kind.
\<close>

datatype weight_item = Item_name string | Item_pair string real

datatype weights_arg = Weights_none | Weights_name string | Weights_pair string real
  | Weights_list "weight_item list"

fun item_pair :: "weight_item \<Rightarrow> string \<times> real" where
  "item_pair (Item_name n) = (n, 1)"
| "item_pair (Item_pair n w) = (n, w)"

fun weights_of :: "weights_arg \<Rightarrow> (string \<times> real) list" where
  "weights_of Weights_none = []"
| "weights_of (Weights_name n) = [(n, 1)]"
| "weights_of (Weights_pair n w) = [(n, w)]"
| "weights_of (Weights_list items) = map item_pair items"

definition in_directory :: "string \<Rightarrow> (string \<times> real) list \<Rightarrow> (string \<times> real) list" where
  "in_directory dir ws =
     map (\<lambda>(model, weight). (if \<not> isabs model then path_join dir model else model, weight)) ws"


definition lycoris_setter :: "backend \<Rightarrow> weights_arg \<Rightarrow> manager \<Rightarrow> manager" where
  "lycoris_setter b new_lycoris m =
     (if new_lycoris = Weights_none then
        (let m1 = (if (case lycoris_attr m of None \<Rightarrow> False | Some l \<Rightarrow> length l > 0)
                   then unload_pipeline m else m)
         in m1\<lparr>lycoris_attr := Some []\<rparr>)
      else
        (let new = in_directory (engine_lycoris_dir b) (weights_of new_lycoris) in
         if (case lycoris_attr m of None \<Rightarrow> [] | Some l \<Rightarrow> l) \<noteq> new
         then (unload_pipeline m)\<lparr>lycoris_attr := Some new\<rparr>
         else m))"

datatype inversion_arg = Inversion_none | Inversion_name string | Inversion_list "string list"

definition inversion_setter :: "inversion_arg \<Rightarrow> manager \<Rightarrow> manager" where
  "inversion_setter new_inversion m =
     (case new_inversion of
        Inversion_none \<Rightarrow>
          (let m1 = (if (case inversion_attr m of None \<Rightarrow> False | Some l \<Rightarrow> length l > 0)
                     then unload_pipeline m else m)
           in m1\<lparr>inversion_attr := Some []\<rparr>)
      | Inversion_name n \<Rightarrow>
          (if (case inversion_attr m of None \<Rightarrow> [] | Some l \<Rightarrow> l) \<noteq> [n]
           then (unload_pipeline m)\<lparr>inversion_attr := Some [n]\<rparr> else m)
      | Inversion_list ns \<Rightarrow>
          (if (case inversion_attr m of None \<Rightarrow> [] | Some l \<Rightarrow> l) \<noteq> ns
           then (unload_pipeline m)\<lparr>inversion_attr := Some ns\<rparr> else m))"



definition tensorrt_is_enabled_setter :: "backend \<Rightarrow> bool \<Rightarrow> manager \<Rightarrow> manager" where
  "tensorrt_is_enabled_setter b new_enabled m =
     (let m1 = (if new_enabled \<noteq> tensorrt_is_enabled m then
                  (let (ready, m2) = tensorrt_is_ready b m in
                   if ready then unload_pipeline m2 else m2)
                else m)
      in m1\<lparr>tensorrt_enabled_attr := Some new_enabled\<rparr>)"

subsection \<open>The generation call\<close>

text \<open>
  Numbers among the call arguments, Python's truth value, and \<open>round\<close> on a float (to the
  nearest integer, a tie to the even one). Floats are taken as the real numbers they denote.
\<close>

fun kw_number :: "kwval \<Rightarrow> real option" where
  "kw_number (KInt i) = Some (real_of_int i)"
| "kw_number (KReal r) = Some r"
| "kw_number v = None"

fun truthy :: "kwval \<Rightarrow> bool" where
  "truthy KNone = False"
| "truthy (KInt i) = (i \<noteq> 0)"
| "truthy (KReal r) = (r \<noteq> 0)"
| "truthy (KStr s) = (s \<noteq> [])"
| "truthy v = True"

definition py_round :: "real \<Rightarrow> int" where
  "py_round x =
     (let f = \<lfloor>x\<rfloor>; d = x - real_of_int f in
      if d < 1 / 2 then f else if d > 1 / 2 then f + 1 else if even f then f else f + 1)"

text \<open>\<open>value < size\<close>, a TypeError unless the value is a number.\<close>

definition less_than_size :: "kwval \<Rightarrow> int \<Rightarrow> bool outcome" where
  "less_than_size v size_px =
     (case kw_number v of
        None \<Rightarrow> Raised (TypeError ''< not supported between these instances'')
      | Some x \<Rightarrow> Returned (x < real_of_int size_px))"

text \<open>
  How the pipeline of a variant leaves the device when another one is about to run:
  \<^verbatim>\<open>
  if self.pipeline_switch_mode == "offload": self.offload_pipeline()
  elif self.pipeline_switch_mode == "unload": self.unload_pipeline(...)
  \<close>
\<close>

fun offload_variant :: "variant \<Rightarrow> manager \<Rightarrow> manager" where
  "offload_variant Base m = offload_pipeline m"
| "offload_variant Refiner m = offload_refiner m"
| "offload_variant Inpainter m = offload_inpainter m"

fun unload_variant :: "variant \<Rightarrow> manager \<Rightarrow> manager" where
  "unload_variant Base m = unload_pipeline m"
| "unload_variant Refiner m = unload_refiner m"
| "unload_variant Inpainter m = unload_inpainter m"

definition switch_away :: "variant \<Rightarrow> manager \<Rightarrow> manager" where
  "switch_away v m =
     (if pipeline_switch_mode m = Some ''offload'' then offload_variant v m
      else if pipeline_switch_mode m = Some ''unload'' then unload_variant v m
      else m)"


text \<open>
  The test of the requested geometry against the engine size:
  \<^verbatim>\<open>
  if called_width < size:
      self.tensorrt_is_enabled = False
  elif called_height < size:
      self.tensorrt_is_enabled = False
  elif (called_width != size or called_height != size) and not chunk_size:
      self.tensorrt_is_enabled = False
  else:
      self.tenssort_is_enabled = True
  \<close>
\<close>

definition check_engine_size :: "backend \<Rightarrow> kwargs \<Rightarrow> int \<Rightarrow> manager \<Rightarrow> unit outcome \<times> manager" where
  "check_engine_size b kwargs size_px m =
     (let called_width = (case kwargs ''width'' of None \<Rightarrow> KInt size_px | Some v \<Rightarrow> v);
          called_height = (case kwargs ''height'' of None \<Rightarrow> KInt size_px | Some v \<Rightarrow> v);
          chunk_size = (case kwargs ''chunking_size'' of None \<Rightarrow> KInt (chunking_size m) | Some v \<Rightarrow> v)
      in case less_than_size called_width size_px of
           Raised x \<Rightarrow> (Raised x, m)
         | Returned True \<Rightarrow> (Returned (), tensorrt_is_enabled_setter b False m)
         | Returned False \<Rightarrow>
             (case less_than_size called_height size_px of
                Raised x \<Rightarrow> (Raised x, m)
              | Returned True \<Rightarrow> (Returned (), tensorrt_is_enabled_setter b False m)
              | Returned False \<Rightarrow>
                  if (kw_number called_width \<noteq> Some (real_of_int size_px)
                      \<or> kw_number called_height \<noteq> Some (real_of_int size_px))
                     \<and> \<not> truthy chunk_size
                  then (Returned (), tensorrt_is_enabled_setter b False m)
                  else (Returned (), m\<lparr>tenssort_is_enabled := Some True\<rparr>)))"


text \<open>\<open>a if a else b\<close> for an optional float \<open>a\<close>.\<close>

definition or_else :: "real option \<Rightarrow> real \<Rightarrow> real" where
  "or_else a d = (case a of None \<Rightarrow> d | Some x \<Rightarrow> if x \<noteq> 0 then x else d)"

text \<open>
  The scale and the new dimensions of an image that is smaller than the refiner size:
  \<^verbatim>\<open>
  if width < self.refiner_size:
      image_scale = self.refiner_size / width
  if height < self.refiner_size:
      image_scale = max(image_scale, self.refiner_size / height)
  new_width = 8 * round((width * image_scale) / 8)
  new_height = 8 * round((height * image_scale) / 8)
  \<close>
\<close>

definition upscale_dims :: "int \<Rightarrow> int \<Rightarrow> int \<Rightarrow> (real \<times> int \<times> int) outcome" where
  "upscale_dims rs w h =
     (if w < rs \<and> w = 0 then Raised (ZeroDivisionError ''division by zero'')
      else
        (let scale1 = (if w < rs then real_of_int rs / real_of_int w else 1) in
         if h < rs \<and> h = 0 then Raised (ZeroDivisionError ''division by zero'')
         else
           (let image_scale = (if h < rs then max scale1 (real_of_int rs / real_of_int h) else scale1);
                new_width = 8 * py_round ((real_of_int w * image_scale) / 8);
                new_height = 8 * py_round ((real_of_int h * image_scale) / 8)
            in Returned (image_scale, new_width, new_height))))"

text \<open>
  The body of the refinement loop for the image at index \<open>i\<close>. Its state is the call
  arguments (mutated from image to image), the frame variables that the closure reads,
  and the result whose images are replaced one by one.
\<close>

definition refine_image ::
  "backend \<Rightarrow> call_params \<Rightarrow> nat \<Rightarrow> kwargs \<times> frame \<times> generation \<Rightarrow> manager
     \<Rightarrow> (kwargs \<times> frame \<times> generation) outcome \<times> manager" where
  "refine_image b ps i st m =
     (let (kwargs, fr, result) = st; image = images result ! i in
      case (case nsfw_content_detected result of
              None \<Rightarrow> Returned False
            | Some flags \<Rightarrow> if i < length flags then Returned (flags ! i)
                             else Raised (IndexError ''list index out of range'')) of
        Raised x \<Rightarrow> (Raised x, m)
      | Returned True \<Rightarrow> (Returned st, m)
      | Returned False \<Rightarrow>
          (let kwargs1 = kwargs(''image'' := None, ''mask'' := None,
                 ''strength'' \<mapsto> KReal (or_else (refiner_strength_arg ps) (refiner_strength m)),
                 ''guidance_scale'' \<mapsto>
                    KReal (or_else (refiner_guidance_scale_arg ps) (refiner_guidance_scale m)),
                 ''aesthetic_score'' \<mapsto>
                    KReal (or_else (refiner_aesthetic_score_arg ps) (refiner_aesthetic_score m)),
                 ''negative_aesthetic_score'' \<mapsto>
                    KReal (or_else (refiner_negative_aesthetic_score_arg ps)
                                   (refiner_negative_aesthetic_score m)));
               (w, h) = image_size image;
               fr1 = fr\<lparr>width := w, height := h\<rparr>;
               (rs, m1) = refiner_size b m
           in case (if (w < rs \<or> h < rs) \<and> scale_to_refiner_size ps then
                      (case upscale_dims rs w h of
                         Raised x \<Rightarrow> Raised x
                       | Returned (image_scale, new_width, new_height) \<Rightarrow>
                           (let kwargs2 = kwargs1(''width'' \<mapsto> KInt new_width, ''height'' \<mapsto> KInt new_height);
                                adapt = (kwargs2 ''latent_callback'' \<noteq> None
                                         \<and> (case kwargs2 ''latent_callback_type'' of
                                               None \<Rightarrow> True | Some t \<Rightarrow> t = KStr ''pil''))
                            in Returned
                                 (image_scale, resize (new_width, new_height) image,
                                  if adapt then kwargs2(''latent_callback'' \<mapsto> KCallback Resize_callback)
                                  else kwargs2,
                                  if adapt then fr1\<lparr>original_callback := kwargs2 ''latent_callback''\<rparr>
                                  else fr1)))
                    else Returned (1, image, kwargs1, fr1)) of
                Raised x \<Rightarrow> (Raised x, m1)
              | Returned (image_scale, image1, kwargs3, fr2) \<Rightarrow>
                  (case refiner_pipeline b (stop_keepalive m1) of
                     (Raised x, m2) \<Rightarrow> (Raised x, m2)
                   | (Returned p, m2) \<Rightarrow>
                       (case run_refiner b p image1 kwargs3 fr2 of
                          Inl x \<Rightarrow> (Raised x, m2)
                        | Inr [] \<Rightarrow> (Raised (IndexError ''list index out of range''), m2)
                        | Inr (refined_image # _) \<Rightarrow>
                            (let refined = (if image_scale \<noteq> 1 then resize (w, h) refined_image
                                            else refined_image)
                             in (Returned (kwargs3, fr2,
                                           result\<lparr>images := (images result)[i := refined]\<rparr>), m2))))))"

fun refine_images ::
  "backend \<Rightarrow> call_params \<Rightarrow> nat list \<Rightarrow> kwargs \<times> frame \<times> generation \<Rightarrow> manager
     \<Rightarrow> (kwargs \<times> frame \<times> generation) outcome \<times> manager" where
  "refine_images b ps [] st m = (Returned st, m)"
| "refine_images b ps (i # rest) st m =
     (case refine_image b ps i st m of
        (Raised x, m1) \<Rightarrow> (Raised x, m1)
      | (Returned st1, m1) \<Rightarrow> refine_images b ps rest st1 m1)"

text \<open>
  The refinement phase of \<open>__call__\<close>. It is entered when a refiner is set, unless the
  \<open>refiner_strength\<close> argument is given and is not positive.
\<close>

definition refine :: "backend \<Rightarrow> call_params \<Rightarrow> bool \<Rightarrow> kwargs \<Rightarrow> generation \<Rightarrow> manager
     \<Rightarrow> generation outcome \<times> manager" where
  "refine b ps inpainting kwargs result m =
     (if refiner m \<noteq> None then
        (if (case refiner_strength_arg ps of None \<Rightarrow> False | Some s \<Rightarrow> s \<le> 0)
         then (Returned result, m)
         else
           (let m1 = start_keepalive m in
            case (case kwargs ''latent_callback'' of
                    None \<Rightarrow> None
                  | Some KNone \<Rightarrow> None
                  | Some (KCallback c) \<Rightarrow> run_callback b c (images result)
                  | Some v \<Rightarrow> Some (TypeError ''object is not callable'')) of
              Some x \<Rightarrow> (Raised x, m1)
            | None \<Rightarrow>
                (case (if pipeline_switch_mode m1 = Some ''offload''
                       then reload_refiner b (offload_variant (if inpainting then Inpainter else Base) m1)
                       else if pipeline_switch_mode m1 = Some ''unload''
                       then (Returned (), unload_variant (if inpainting then Inpainter else Base) m1)
                       else (Returned (), m1)) of
                   (Raised x, m2) \<Rightarrow> (Raised x, m2)
                 | (Returned _, m2) \<Rightarrow>
                     (case refine_images b ps [0..<length (images result)]
                             (kwargs, \<lparr>original_callback = None, width = 0, height = 0\<rparr>, result) m2 of
                        (Raised x, m3) \<Rightarrow> (Raised x, m3)
                      | (Returned (kwargs1, fr, result1), m3) \<Rightarrow>
                          (Returned result1, switch_away Refiner m3)))))
      else (Returned result, m))"



subsection \<open>A sample manager and backend\<close>

text \<open>
  The manager as \<open>__init__\<close> leaves it, with an empty configuration, and collaborators
  that always succeed on a CUDA device without TensorRT: a pipeline call yields one
  256 by 384 picture, and the refiner yields a picture of the size of its input.
\<close>

definition empty_config :: config where
  "empty_config =
     \<lparr>enfugue_size = None, enfugue_chunk_size = None, enfugue_pipeline_switch = None,
      enfugue_refiner = None, enfugue_refiner_strength = None,
      enfugue_refiner_guidance_scale = None, enfugue_refiner_aesthetic_score = None,
      enfugue_refiner_negative_aesthetic_score = None, enfugue_dtype = None\<rparr>"

definition new_manager :: manager where
  "new_manager =
     \<lparr>configuration = empty_config,
      pipeline_attr = None, pipeline_is_offloaded_attr = None,
      refiner_pipeline_attr = None, refiner_pipeline_is_offloaded_attr = None,
      inpainter_pipeline_attr = None, inpainter_pipeline_is_offloaded_attr = None,
      lora_attr = None, lycoris_attr = None, inversion_attr = None,
      size_attr = None, refiner_size_attr = None, inpainter_size_attr = None,
      chunking_size_attr = None, tensorrt_enabled_attr = None, tenssort_is_enabled = None,
      pipeline_switch_mode_attr = None, refiner_attr = None, refiner_strength_attr = None,
      refiner_guidance_scale_attr = None, refiner_aesthetic_score_attr = None,
      refiner_negative_aesthetic_score_attr = None, device_attr = None, torch_dtype_attr = None,
      keepalive_thread_attr = None, constructions = 0\<rparr>"

definition easy_backend :: backend where
  "easy_backend =
     \<lparr>tensorrt_is_supported = False,
      engines_exist = (\<lambda>v m. False),
      fetch_checkpoint = (\<lambda>v m. None),
      construct = (\<lambda>v m. None),
      run_pipeline = (\<lambda>p kw. Inr \<lparr>images = [Picture 0 256 384], nsfw_content_detected = None\<rparr>),
      run_refiner = (\<lambda>p im kw fr. Inr [Picture 1 (fst (image_size im)) (snd (image_size im))]),
      run_callback = (\<lambda>c ims. None),
      optimal_device = ''cuda'',
      hip = False,
      engine_lora_dir = ''/cache/lora'',
      engine_lycoris_dir = ''/cache/lycoris'',
      sdxl = (\<lambda>v m. False)\<rparr>"

text \<open>The base pipeline that the sample backend constructs first for the new manager.\<close>

definition first_pipe :: pipe where
  "first_pipe = \<lparr>instance_id = 0, role = Base, location = ''cuda'', precision = ''float16'',
                 engine_size = 512\<rparr>"

definition no_params :: call_params where
  "no_params = \<lparr>refiner_strength_arg = None, refiner_guidance_scale_arg = None,
                refiner_aesthetic_score_arg = None, refiner_negative_aesthetic_score_arg = None,
                scale_to_refiner_size = True\<rparr>"

text \<open>The new manager after its first access to \<open>pipeline\<close> with the sample backend.\<close>

definition loaded_manager :: manager where
  "loaded_manager =
     new_manager\<lparr>pipeline_attr := Some first_pipe, size_attr := Some 512,
                 torch_dtype_attr := Some ''float16'', constructions := 1\<rparr>"

text \<open>The same manager holding a refiner and an inpainter pipeline as well.\<close>

definition busy_manager :: manager where
  "busy_manager =
     loaded_manager\<lparr>refiner_attr := Some (Some ''/models/refiner.safetensors''),
                    refiner_pipeline_attr := Some (first_pipe\<lparr>instance_id := 1, role := Refiner\<rparr>),
                    inpainter_pipeline_attr := Some (first_pipe\<lparr>instance_id := 2, role := Inpainter\<rparr>),
                    constructions := 3\<rparr>"


text \<open>
  The loaded manager with a refiner configured, its \<open>_refiner_strength\<close> attribute as given;
  the result of one primary generation of the sample backend, and the frame before the
  refinement loop.
\<close>

definition refining_manager :: "real option \<Rightarrow> manager" where
  "refining_manager strength =
     loaded_manager\<lparr>refiner_attr := Some (Some ''/models/refiner.safetensors''),
                    refiner_strength_attr := strength\<rparr>"

definition first_result :: generation where
  "first_result = \<lparr>images = [Picture 0 256 384], nsfw_content_detected = None\<rparr>"

definition empty_frame :: frame where
  "empty_frame = \<lparr>original_callback = None, width = 0, height = 0\<rparr>"


section \<open>Properties of the engine\<close>

subsection \<open>Liveness and channels\<close>

lemma is_alive_none: "process e = None \<Longrightarrow> is_alive w e = Some (Returned False, e)"
  by (simp add: is_alive_def)

lemma is_alive_running: "process_is_alive e \<Longrightarrow> is_alive w e = Some (Returned True, e)"
  by (auto simp: is_alive_def process_is_alive_def split: option.splits)

lemma terminate_process_dead:
  "process e = Some p \<Longrightarrow> \<not> alive p \<Longrightarrow> terminate_process w t e = Some (Returned (), teardown e)"
  by (simp add: terminate_process_def Let_def)

lemma is_alive_dead:
  "process e = Some p \<Longrightarrow> \<not> alive p \<Longrightarrow> is_alive w e = Some (Returned False, teardown e)"
  by (simp add: is_alive_def terminate_process_dead)

lemma queue_put_results:
  "results_q e = Some q \<Longrightarrow> queue_put w Results item e = Some (Returned (), e\<lparr>results_q := Some (q @ [item])\<rparr>)"
  by (simp add: queue_put_def check_get_queue_def)

lemma drain_results_some:
  "results_q e = Some q \<Longrightarrow> drain_results w e = Some (Returned q, e\<lparr>results_q := Some []\<rparr>)"
  by (simp add: drain_results_def check_get_queue_def)

text \<open>While the worker is alive, \<open>dispatch\<close> is the function used inside \<open>terminate_process\<close>.\<close>

lemma dispatch_when_alive:
  "process_is_alive e \<Longrightarrow> dispatch w action payload True e = Some (dispatch_alive action payload e)"
  by (auto simp: dispatch_def spawn_process_def dispatch_alive_def queue_put_def check_get_queue_def
      is_alive_running process_is_alive_def Let_def split: option.splits)

text \<open>The end of \<open>terminate_process\<close> is the process deletion followed by the three channel deleters.\<close>

lemma teardown_by_deleters:
  "process (e\<lparr>process := None\<rparr>) = None \<and>
   (case check_delete_queue w Intermediates (e\<lparr>process := None\<rparr>) of
      Some (Returned u, e1) \<Rightarrow>
        (case check_delete_queue w Results e1 of
           Some (Returned u, e2) \<Rightarrow>
             (case check_delete_queue w Instructions e2 of
                Some (Returned u, e3) \<Rightarrow> e3 = teardown e | _ \<Rightarrow> False)
         | _ \<Rightarrow> False)
    | _ \<Rightarrow> False)"
  by (cases "intermediates_q e"; cases "results_q e"; cases "instructions_q e")
     (simp_all add: check_delete_queue_def is_alive_none teardown_def)

subsection \<open>The scan of wait over the drained envelopes\<close>

lemma wait_step_other:
  "results_q e = Some q0 \<Longrightarrow> parses w ident r \<Longrightarrow> \<not> matches ident r \<Longrightarrow>
   wait_step w ident r acc e = Some (Returned acc, e\<lparr>results_q := Some (q0 @ [r])\<rparr>)"
  by (cases acc) (auto simp: wait_step_def parses_def matches_def queue_put_results split: option.splits)

lemma wait_step_error:
  "parses w ident r \<Longrightarrow> matches ident r \<Longrightarrow> carries_error r \<Longrightarrow>
   wait_step w ident r (to_raise, to_return) e =
     Some (Returned (Some (remote_of w r), to_return),
           e\<lparr>error_log := error_log e @ (case map_of r ''trace'' of None \<Rightarrow> [] | Some t \<Rightarrow> [t])\<rparr>)"
  by (auto simp: wait_step_def parses_def matches_def carries_error_def remote_of_def split: option.splits)

lemma wait_step_result:
  "parses w ident r \<Longrightarrow> matches ident r \<Longrightarrow> \<not> carries_error r \<Longrightarrow>
   wait_step w ident r (to_raise, to_return) e =
     Some (Returned (to_raise, the (map_of r ''result'')), e)"
  by (auto simp: wait_step_def parses_def matches_def carries_error_def split: option.splits)

lemma wait_scan_parsed:
  assumes "results_q e = Some q0" and "\<forall>r\<in>set rs. parses w ident r"
  shows "wait_scan w ident rs (to_raise, to_return) e =
     Some (Returned
            (let errs = filter carries_error (filter (matches ident) rs) in
               if errs = [] then to_raise else Some (remote_of w (last errs)),
             let oks = filter (\<lambda>r. \<not> carries_error r) (filter (matches ident) rs) in
               if oks = [] then to_return else the (map_of (last oks) ''result'')),
           e\<lparr>results_q := Some (q0 @ filter (\<lambda>r. \<not> matches ident r) rs),
             error_log := error_log e @ traces_of (filter carries_error (filter (matches ident) rs))\<rparr>)"
  using assms
proof (induction rs arbitrary: e q0 to_raise to_return)
  case Nil
  then show ?case by (simp add: traces_of_def)
next
  case (Cons r rs)
  have p: "parses w ident r" and ps: "\<forall>r\<in>set rs. parses w ident r" using Cons.prems by auto
  show ?case
  proof (cases "matches ident r")
    case False
    have q1: "results_q (e\<lparr>results_q := Some (q0 @ [r])\<rparr>) = Some (q0 @ [r])" by simp
    show ?thesis
      using False wait_step_other[OF Cons.prems(1) p False] Cons.IH[OF q1 ps]
      by (simp add: traces_of_def)
  next
    case True
    show ?thesis
    proof (cases "carries_error r")
      case e: True
      let ?e1 = "e\<lparr>error_log := error_log e @ (case map_of r ''trace'' of None \<Rightarrow> [] | Some t \<Rightarrow> [t])\<rparr>"
      have q1: "results_q ?e1 = Some q0" using Cons.prems(1) by simp
      show ?thesis
        using True e wait_step_error[OF p True e] Cons.IH[OF q1 ps]
        by (simp add: traces_of_def Let_def)
    next
      case e: False
      show ?thesis
        using True e wait_step_result[OF p True e] Cons.IH[OF Cons.prems(1) ps]
        by (simp add: traces_of_def Let_def)
    qed
  qed
qed

subsection \<open>One pass of wait\<close>

lemma wait_pass_parsed:
  assumes "process_is_alive e" and "results_q e = Some q" and "\<forall>r\<in>set q. parses w ident r"
  shows "wait_pass w ident e =
     Some (let errs = filter carries_error (filter (matches ident) q);
               oks = filter (\<lambda>r. \<not> carries_error r) (filter (matches ident) q)
           in if errs \<noteq> [] then Raised (remote_of w (last errs))
              else if oks \<noteq> [] \<and> the (map_of (last oks) ''result'') \<noteq> PNone
                   then Returned (Some (the (map_of (last oks) ''result'')))
                   else Returned None,
           e\<lparr>results_q := Some (filter (\<lambda>r. \<not> matches ident r) q),
             error_log := error_log e @ traces_of (filter carries_error (filter (matches ident) q))\<rparr>)"
proof -
  have q1: "results_q (e\<lparr>results_q := Some []\<rparr>) = Some []" by simp
  show ?thesis
    unfolding wait_pass_def
    by (simp add: is_alive_running[OF assms(1)] drain_results_some[OF assms(2)]
        wait_scan_parsed[OF q1 assms(3)] Let_def)
qed

lemma wait_of_pass:
  "wait_pass w ident e = Some (Returned (Some v), e') \<Longrightarrow> wait_loop w ident timeout start e = Some (Returned v, e')"
  "wait_pass w ident e = Some (Raised x, e') \<Longrightarrow> wait_loop w ident timeout start e = Some (Raised x, e')"
  by (subst wait_loop.simps, simp)+

lemma running_engine_simps:
  "process_is_alive (running_engine q)" "results_q (running_engine q) = Some q"
  "error_log (running_engine q) = []"
  "(running_engine q)\<lparr>results_q := Some q', error_log := []\<rparr> = running_engine q'"
  by (simp_all add: running_engine_def process_is_alive_def)

lemma result_envelope_simps:
  "matches i (result_envelope j r) = (j = i)" "\<not> carries_error (result_envelope j r)"
  "parses w i (result_envelope j r)" "map_of (result_envelope j r) ''result'' = Some r"
  by (simp_all add: matches_def result_envelope_def carries_error_def parses_def)

lemma wait_pass_running:
  "\<forall>r\<in>set q. parses w i r \<Longrightarrow> filter carries_error (filter (matches i) q) = [] \<Longrightarrow>
   wait_pass w i (running_engine q) =
       Some (let oks = filter (\<lambda>r. \<not> carries_error r) (filter (matches i) q)
             in if oks \<noteq> [] \<and> the (map_of (last oks) ''result'') \<noteq> PNone
                then Returned (Some (the (map_of (last oks) ''result''))) else Returned None,
             running_engine (filter (\<lambda>r. \<not> matches i r) q))"
  by (simp add: wait_pass_parsed[OF running_engine_simps(1) running_engine_simps(2)]
      running_engine_simps traces_of_def Let_def)

lemma wait_pass_running_raw:
  "wait_pass w i (running_engine q) =
     (case wait_scan w i q (None, PNone) (running_engine []) of
        None \<Rightarrow> None
      | Some (Raised x, e3) \<Rightarrow> Some (Raised x, e3)
      | Some (Returned (to_raise, to_return), e3) \<Rightarrow>
          (case to_raise of
             Some x \<Rightarrow> Some (Raised x, e3)
           | None \<Rightarrow> if to_return \<noteq> PNone then Some (Returned (Some to_return), e3)
                     else Some (Returned None, e3)))"
proof -
  have "(running_engine q)\<lparr>results_q := Some []\<rparr> = running_engine []"
    by (simp add: running_engine_def)
  then show ?thesis
    by (simp add: wait_pass_def is_alive_running running_engine_simps(1)
        drain_results_some[OF running_engine_simps(2)])
qed

subsection \<open>Selective requeue\<close>

text \<open>
  C1, as the code has it. In a pass of \<open>wait(ident)\<close> that finds the worker alive and in
  which every drained envelope parses, the outcome is the one the pass has on the envelopes
  tagged \<open>ident\<close> alone, every drained envelope with another id is back on the results
  channel in arrival order, and a pass that resolves ends \<open>wait\<close> with that outcome. (An
  envelope that fails to parse makes the pass re-raise at once, and the envelopes drained
  behind it are not pushed back.) The witness is
  the scenario of results arriving in the order 3, 1, 2: \<open>wait(2)\<close> returns the payload of
  2 and leaves 3 and 1, which \<open>wait(1)\<close> and \<open>wait(3)\<close> then retrieve.
\<close>

theorem wait_requeues_other_ids:
  assumes "process_is_alive e" and "results_q e = Some q" and "\<forall>r\<in>set q. parses w ident r"
  shows "\<exists>out e'. wait_pass w ident e = Some (out, e')
          \<and> results_q e' = Some (filter (\<lambda>r. \<not> matches ident r) q)
          \<and> (\<exists>e''. wait_pass w ident (e\<lparr>results_q := Some (filter (matches ident) q)\<rparr>) = Some (out, e''))
          \<and> (\<forall>v. out = Returned (Some v) \<longrightarrow> wait w ident timeout e = Some (Returned v, e'))
          \<and> (\<forall>x. out = Raised x \<longrightarrow> wait w ident timeout e = Some (Raised x, e'))"
proof -
  let ?e = "e\<lparr>results_q := Some (filter (matches ident) q)\<rparr>"
  have a: "process_is_alive ?e" using assms(1) by (simp add: process_is_alive_def)
  have b: "results_q ?e = Some (filter (matches ident) q)" by simp
  have c: "\<forall>r\<in>set (filter (matches ident) q). parses w ident r" using assms(3) by simp
  have same: "filter (matches ident) (filter (matches ident) q) = filter (matches ident) q"
    by simp
  show ?thesis
    unfolding wait_pass_parsed[OF assms] wait_pass_parsed[OF a b c] same wait_def
    by (auto simp: Let_def wait_of_pass wait_pass_parsed[OF assms])
qed

theorem wait_requeues_other_ids_witness:
  "process_is_alive (running_engine [result_envelope 3 (PStr ''three''), result_envelope 1 (PStr ''one''),
                                     result_envelope 2 (PStr ''two'')])
   \<and> results_q (running_engine [result_envelope 3 (PStr ''three''), result_envelope 1 (PStr ''one''),
                                   result_envelope 2 (PStr ''two'')])
       = Some [result_envelope 3 (PStr ''three''), result_envelope 1 (PStr ''one''),
               result_envelope 2 (PStr ''two'')]
   \<and> parses idle_world 2 (result_envelope 3 (PStr ''three''))
   \<and> parses idle_world 2 (result_envelope 1 (PStr ''one''))
   \<and> parses idle_world 2 (result_envelope 2 (PStr ''two''))
   \<and> wait idle_world 2 None (running_engine [result_envelope 3 (PStr ''three''),
          result_envelope 1 (PStr ''one''), result_envelope 2 (PStr ''two'')])
       = Some (Returned (PStr ''two''),
               running_engine [result_envelope 3 (PStr ''three''), result_envelope 1 (PStr ''one'')])
   \<and> wait idle_world 1 None (running_engine [result_envelope 3 (PStr ''three''), result_envelope 1 (PStr ''one'')])
       = Some (Returned (PStr ''one''), running_engine [result_envelope 3 (PStr ''three'')])
   \<and> wait idle_world 3 None (running_engine [result_envelope 3 (PStr ''three'')])
       = Some (Returned (PStr ''three''), running_engine [])"
proof -
  have step: "wait idle_world i None (running_engine q) = Some (Returned v, running_engine q')"
    if "\<forall>r\<in>set q. parses idle_world i r"
      and "wait_pass idle_world i (running_engine q) = Some (Returned (Some v), running_engine q')"
    for i q v q'
    using wait_requeues_other_ids[OF running_engine_simps(1) running_engine_simps(2) that(1), of None] that(2)
    by auto
  show ?thesis
    by (intro conjI step)
       (simp_all add: wait_pass_running running_engine_simps(1,2) result_envelope_simps)
qed

text \<open>
  C1 as stated fails on a channel that holds an envelope of unknown shape: the first
  envelope has no id, the pass re-raises the \<open>KeyError\<close>, and the envelope of request 1,
  drained with it, is on no channel afterwards.
\<close>

theorem wait_drops_after_unparsable_envelope:
  "wait idle_world 2 None (running_engine [[(''result'', PInt 5)], result_envelope 1 (PStr ''one'')])
     = Some (Raised (KeyError ''id''),
             (running_engine [])\<lparr>error_log := [PStr ''Couldn't parse result'']\<rparr>)"
proof -
  have "wait_pass idle_world 2 (running_engine [[(''result'', PInt 5)], result_envelope 1 (PStr ''one'')])
     = Some (Raised (KeyError ''id''),
             (running_engine [])\<lparr>error_log := [PStr ''Couldn't parse result'']\<rparr>)"
    by (simp add: wait_pass_running_raw wait_step_def parse_failure_def running_engine_simps)
  then show ?thesis
    unfolding wait_def by (rule wait_of_pass)
qed

subsection \<open>Result or exception\<close>

text \<open>
  C8, as the code has it. In a pass of \<open>wait(ident)\<close> that finds the worker alive and in
  which every drained envelope parses: if a drained envelope tagged \<open>ident\<close> carries an
  error, \<open>wait\<close> raises the exception of the named kind built from the carried message (of
  the last such envelope) and the traces are logged, not raised; otherwise, if an envelope
  tagged \<open>ident\<close> was drained and the result of the last one is not \<open>None\<close>, \<open>wait\<close> returns
  that result; otherwise the pass surfaces nothing and \<open>wait\<close> goes on polling. A matching
  envelope whose result is \<open>None\<close> is consumed without being returned.
\<close>

theorem wait_surfaces_error_or_result:
  assumes "process_is_alive e" and "results_q e = Some q" and "\<forall>r\<in>set q. parses w ident r"
  shows "let ms = filter (matches ident) q;
             errs = filter carries_error ms;
             oks = filter (\<lambda>r. \<not> carries_error r) ms
         in (errs \<noteq> [] \<longrightarrow>
               (\<exists>e'. wait w ident timeout e = Some (Raised (remote_of w (last errs)), e')
                     \<and> error_log e' = error_log e @ traces_of errs))
          \<and> (errs = [] \<and> oks \<noteq> [] \<and> the (map_of (last oks) ''result'') \<noteq> PNone \<longrightarrow>
               (\<exists>e'. wait w ident timeout e = Some (Returned (the (map_of (last oks) ''result'')), e')))
          \<and> (errs = [] \<and> (oks = [] \<or> the (map_of (last oks) ''result'') = PNone) \<longrightarrow>
               (\<exists>e'. wait_pass w ident e = Some (Returned None, e')
                     \<and> results_q e' = Some (filter (\<lambda>r. \<not> matches ident r) q)))"
  unfolding wait_def Let_def
  by (auto simp: wait_pass_parsed[OF assms] Let_def intro!: wait_of_pass)

theorem wait_surfaces_error_or_result_witness:
  "process_is_alive (running_engine [[(''id'', PInt 2), (''error'', PStr ''ValueError''),
                                      (''message'', PStr ''bad size''), (''trace'', PStr ''traceback'')]])
   \<and> parses idle_world 2 [(''id'', PInt 2), (''error'', PStr ''ValueError''),
                          (''message'', PStr ''bad size''), (''trace'', PStr ''traceback'')]
   \<and> (\<exists>e'. wait idle_world 2 None
              (running_engine [[(''id'', PInt 2), (''error'', PStr ''ValueError''),
                                (''message'', PStr ''bad size''), (''trace'', PStr ''traceback'')]])
             = Some (Raised (Remote ''ValueError'' (PStr ''bad size'')), e')
           \<and> error_log e' = [PStr ''traceback''])"
proof -
  let ?q = "[[(''id'', PInt 2), (''error'', PStr ''ValueError''),
              (''message'', PStr ''bad size''), (''trace'', PStr ''traceback'')]]"
  have p: "\<forall>r\<in>set ?q. parses idle_world 2 r"
    by (simp add: parses_def matches_def idle_world_def)
  show ?thesis
    using wait_surfaces_error_or_result[OF running_engine_simps(1) running_engine_simps(2) p, of None] p
    by (simp add: Let_def matches_def carries_error_def remote_of_def idle_world_def traces_of_def
        running_engine_simps)
qed

text \<open>
  C8 as stated fails for a result that is \<open>None\<close>: the envelope of request 2 carries no
  error, yet its result is not returned; the envelope is consumed and \<open>wait\<close> ends with a
  timeout.
\<close>

theorem wait_swallows_none_result:
  "wait idle_world 2 (Some (1/100)) (running_engine [result_envelope 2 PNone])
     = Some (Raised (TimeoutError ''Timed out waiting for response.''),
             (running_engine [])\<lparr>now := 1/50\<rparr>)"
proof -
  have pass: "wait_pass idle_world 2 (running_engine [result_envelope 2 PNone])
     = Some (Returned None, running_engine [])"
    by (simp add: wait_pass_running result_envelope_simps)
  have sleep: "time_sleep idle_world (POLLING_DELAY_MS idle_world / 500) (running_engine [])
     = (running_engine [])\<lparr>now := 1/50\<rparr>"
    by (simp add: time_sleep_def idle_world_def running_engine_def Let_def)
  show ?thesis
    unfolding wait_def
    by (subst wait_loop.simps) (simp add: pass sleep, simp add: running_engine_def)
qed

subsection \<open>Worker death wins over a delivered result\<close>

text \<open>
  C10. A pass of \<open>wait\<close> checks liveness before it reads the results channel. From any
  state in which the worker process is dead, whatever the results channel holds, \<open>wait\<close>
  raises the IOError at once, and the state it leaves is the one torn down by the liveness
  check: the process handle and the three channels are gone. The loop is entered at each
  iteration in such a state \<open>e\<close> (with the start time of the call), so this holds in
  every iteration.
\<close>

theorem wait_dead_worker_raises:
  assumes "process e = Some p" and "\<not> alive p"
  shows "wait_loop w ident timeout start e =
           Some (Raised (IOError ''Process died while waiting for result.''), teardown e)
         \<and> instructions_q (teardown e) = None \<and> results_q (teardown e) = None
         \<and> intermediates_q (teardown e) = None"
proof -
  have "wait_pass w ident e = Some (Raised (IOError ''Process died while waiting for result.''), teardown e)"
    by (simp add: wait_pass_def is_alive_dead[OF assms])
  then show ?thesis by (simp add: wait_of_pass teardown_def)
qed

theorem wait_dead_worker_raises_witness:
  "process (orphaned_engine [result_envelope 2 (PStr ''two'')]) = Some \<lparr>alive = False, terms = 0\<rparr>
   \<and> \<not> alive \<lparr>alive = False, terms = 0\<rparr>
   \<and> results_q (orphaned_engine [result_envelope 2 (PStr ''two'')]) = Some [result_envelope 2 (PStr ''two'')]
   \<and> wait idle_world 2 None (orphaned_engine [result_envelope 2 (PStr ''two'')])
       = Some (Raised (IOError ''Process died while waiting for result.''),
               \<lparr>request = 3, process = None, instructions_q = None, results_q = None,
                intermediates_q = None, now = 0, error_log = []\<rparr>)"
proof -
  have a: "process (orphaned_engine [result_envelope 2 (PStr ''two'')]) = Some \<lparr>alive = False, terms = 0\<rparr>"
    by (simp add: orphaned_engine_def)
  have b: "\<not> alive \<lparr>alive = False, terms = 0\<rparr>" by simp
  show ?thesis
    using wait_dead_worker_raises[OF a b, of idle_world 2 None 0]
    by (simp add: wait_def orphaned_engine_def running_engine_def teardown_def)
qed

subsection \<open>Termination of the worker\<close>

text \<open>
  The test in the polling loop of \<open>terminate_process\<close> is \<open>timeout > waited\<close>: while the
  timeout has not yet elapsed, the first poll that finds the worker alive sends the forced
  kill; once it has elapsed, the loop only sleeps.
\<close>

lemma terminate_poll_before_timeout:
  "process_is_alive e \<Longrightarrow> now e - start < t \<Longrightarrow>
   terminate_poll w (Some t) start st e = Some (time_sleep w st (process_terminate e))"
  by (subst terminate_poll.simps) simp

lemma terminate_poll_after_timeout:
  "process_is_alive e \<Longrightarrow> t \<le> now e - start \<Longrightarrow>
   terminate_poll w (Some t) start st e = terminate_poll w (Some t) start st (time_sleep w st e)"
  by (subst terminate_poll.simps) simp

text \<open>
  C4 at a concrete input. The worker needs one second to honour "stop" and the timeout is
  10 seconds. After the first fixed delay (at 0.02 s) the loop finds the worker alive and,
  0.02 being less than the timeout, sends the forced kill at once; \<open>terminate_process\<close>
  is over at 0.04 s. The claim has the forced kill sent only once the 10 seconds have
  elapsed.
\<close>

theorem terminate_process_kills_before_timeout:
  "terminate_poll slow_stop_world (Some 10) 0 (1/50)
      \<lparr>request = 4, process = Some \<lparr>alive = True, terms = 0\<rparr>,
       instructions_q = Some [[(''id'', PInt 4), (''action'', PStr ''stop''), (''payload'', PNone)]],
       results_q = Some [], intermediates_q = Some [], now = 1/50, error_log = []\<rparr>
     = Some \<lparr>request = 4, process = Some \<lparr>alive = False, terms = 1\<rparr>,
             instructions_q = Some [[(''id'', PInt 4), (''action'', PStr ''stop''), (''payload'', PNone)]],
             results_q = Some [], intermediates_q = Some [], now = 1/25, error_log = []\<rparr>
   \<and> terminate_process slow_stop_world (Some 10) (running_engine [])
     = Some (Returned (), \<lparr>request = 4, process = None, instructions_q = None, results_q = None,
                           intermediates_q = None, now = 1/25, error_log = []\<rparr>)"
proof -
  let ?e1 = "\<lparr>request = 4, process = Some \<lparr>alive = True, terms = 0\<rparr>,
       instructions_q = Some [[(''id'', PInt 4), (''action'', PStr ''stop''), (''payload'', PNone)]],
       results_q = Some [], intermediates_q = Some [], now = 1/50, error_log = []\<rparr>"
  let ?e2 = "\<lparr>request = 4, process = Some \<lparr>alive = False, terms = 1\<rparr>,
             instructions_q = Some [[(''id'', PInt 4), (''action'', PStr ''stop''), (''payload'', PNone)]],
             results_q = Some [], intermediates_q = Some [], now = 1/25, error_log = []\<rparr>"
  have poll: "terminate_poll slow_stop_world (Some 10) 0 (1/50) ?e1 = Some ?e2"
    by (subst terminate_poll.simps)
       (simp add: process_is_alive_def process_terminate_def time_sleep_def slow_stop_world_def Let_def)
  have d: "dispatch_alive ''stop'' PNone (running_engine []) =
      (Returned 4, (running_engine [])\<lparr>request := 4,
         instructions_q := Some [[(''id'', PInt 4), (''action'', PStr ''stop''), (''payload'', PNone)]]\<rparr>)"
    by (simp add: dispatch_alive_def running_engine_def Let_def)
  have s: "time_sleep slow_stop_world (1/50) ((running_engine [])\<lparr>request := 4,
         instructions_q := Some [[(''id'', PInt 4), (''action'', PStr ''stop''), (''payload'', PNone)]]\<rparr>) = ?e1"
    by (simp add: time_sleep_def slow_stop_world_def running_engine_def Let_def)
  have p: "POLLING_DELAY_MS slow_stop_world / 500 = 1/50" by (simp add: slow_stop_world_def)
  have r: "process (running_engine []) = Some \<lparr>alive = True, terms = 0\<rparr>" "now (running_engine []) = 0"
    by (simp_all add: running_engine_def)
  have "terminate_process slow_stop_world (Some 10) (running_engine [])
     = Some (Returned (), \<lparr>request = 4, process = None, instructions_q = None, results_q = None,
                           intermediates_q = None, now = 1/25, error_log = []\<rparr>)"
    unfolding terminate_process_def p Let_def
    by (simp add: r d s poll process_is_alive_def teardown_def)
  with poll show ?thesis by simp
qed


section \<open>Properties of the cache keys\<close>

subsection \<open>join\<close>




lemma no_sep_neq:
  assumes "c \<notin> set x" shows "x \<noteq> y @ c # r"
  using assms by auto





subsection \<open>Decimal numerals\<close>










subsection \<open>Sorting by name\<close>




subsection \<open>The hashed text\<close>














text \<open>
  A stable sort by name keeps two entries of the same name in the order of the input: these
  two permutations of one list are hashed as different texts.
\<close>


lemma cache_key_repeated_name_order:
  "mset [(''a'', 1), (''a'', 2)] = mset [(''a'', 2), (''a'', 1::int)]
   \<and> canonical_text str_int 512 [(''a'', 1), (''a'', 2)] [] [] = ''512-a=1:a=2--''
   \<and> canonical_text str_int 512 [(''a'', 2), (''a'', 1)] [] [] = ''512-a=2:a=1--''"
  by (simp add: canonical_text_def weight_text_def str_int_def digits.simps digit_char_def)


section \<open>Properties of the pipeline manager\<close>

subsection \<open>The accelerated-engine flag\<close>



lemma check_engine_size_disables:
  "less_than_size (case kwargs ''width'' of None \<Rightarrow> KInt size_px | Some v \<Rightarrow> v) size_px = Returned True \<Longrightarrow>
   check_engine_size b kwargs size_px m = (Returned (), tensorrt_is_enabled_setter b False m)"
  by (simp add: check_engine_size_def Let_def)



subsection \<open>Offload and reload\<close>


lemma dtype_cached: "torch_dtype_attr m = Some d \<Longrightarrow> dtype b m = Returned d"
  by (simp add: dtype_def)

lemma pipeline_first_access: "pipeline easy_backend new_manager = (Returned first_pipe, loaded_manager)"
  by (simp add: pipeline_def easy_backend_def new_manager_def size_getter_def dtype_def device_def
      empty_config_def DEFAULT_SIZE_def pipe_to_def first_pipe_def loaded_manager_def Let_def)


text \<open>
  C6. In a manager state whose dtype is cached (as it is once a lazy constructor has run),
  for each of the three variants that holds a constructed pipeline: offloading and then
  reloading succeeds, the variant is not offloaded afterwards, no constructor has run, and
  the held instance is the one held before, on the manager's device with the manager's
  dtype; for the base pipeline and the inpainter the property then returns that instance
  without constructing.
\<close>

theorem offload_reload_round_trip:
  assumes "torch_dtype_attr m = Some d"
  shows "(pipeline_attr m = Some p \<longrightarrow>
            (\<exists>m'. reload_pipeline b (offload_pipeline m) = (Returned (), m')
                 \<and> \<not> pipeline_is_offloaded m'
                 \<and> constructions m' = constructions m
                 \<and> pipeline_attr m' = Some (p\<lparr>location := device b m, precision := d\<rparr>)
                 \<and> pipeline b m' = (Returned (p\<lparr>location := device b m, precision := d\<rparr>), m')))
       \<and> (refiner_pipeline_attr m = Some r \<longrightarrow>
            (\<exists>m'. reload_refiner b (offload_refiner m) = (Returned (), m')
                 \<and> \<not> refiner_is_offloaded m'
                 \<and> constructions m' = constructions m
                 \<and> refiner_pipeline_attr m' = Some (r\<lparr>location := device b m, precision := d\<rparr>)))
       \<and> (inpainter_pipeline_attr m = Some q \<longrightarrow>
            (\<exists>m'. reload_inpainter b (offload_inpainter m) = (Returned (), m')
                 \<and> \<not> inpainter_is_offloaded m'
                 \<and> constructions m' = constructions m
                 \<and> inpainter_pipeline_attr m' = Some (q\<lparr>location := device b m, precision := d\<rparr>)
                 \<and> inpainter_pipeline b m' = (Returned (q\<lparr>location := device b m, precision := d\<rparr>), m')))"
  using assms
  by (auto simp: reload_pipeline_def offload_pipeline_def pipeline_is_offloaded_def
      reload_refiner_def offload_refiner_def refiner_is_offloaded_def
      reload_inpainter_def offload_inpainter_def inpainter_is_offloaded_def
      pipeline_def inpainter_pipeline_def dtype_def device_def pipe_to_def Let_def
      split: option.splits)

theorem offload_reload_round_trip_witness:
  "torch_dtype_attr busy_manager = Some ''float16''
   \<and> pipeline_attr busy_manager = Some first_pipe
   \<and> refiner_pipeline_attr busy_manager = Some (first_pipe\<lparr>instance_id := 1, role := Refiner\<rparr>)
   \<and> inpainter_pipeline_attr busy_manager = Some (first_pipe\<lparr>instance_id := 2, role := Inpainter\<rparr>)
   \<and> pipeline_is_offloaded (offload_pipeline busy_manager)
   \<and> reload_pipeline easy_backend (offload_pipeline busy_manager) = (Returned (), busy_manager\<lparr>pipeline_is_offloaded_attr := Some False\<rparr>)
   \<and> pipeline easy_backend (busy_manager\<lparr>pipeline_is_offloaded_attr := Some False\<rparr>)
       = (Returned first_pipe, busy_manager\<lparr>pipeline_is_offloaded_attr := Some False\<rparr>)
   \<and> (\<exists>m'. reload_refiner easy_backend (offload_refiner busy_manager) = (Returned (), m')
           \<and> refiner_pipeline_attr m' = Some (first_pipe\<lparr>instance_id := 1, role := Refiner\<rparr>)
           \<and> constructions m' = 3)
   \<and> (\<exists>m'. reload_inpainter easy_backend (offload_inpainter busy_manager) = (Returned (), m')
           \<and> inpainter_pipeline_attr m' = Some (first_pipe\<lparr>instance_id := 2, role := Inpainter\<rparr>)
           \<and> constructions m' = 3)"
proof -
  have d: "torch_dtype_attr busy_manager = Some ''float16''"
    by (simp add: busy_manager_def loaded_manager_def)
  have a: "pipeline_attr busy_manager = Some first_pipe"
    "refiner_pipeline_attr busy_manager = Some (first_pipe\<lparr>instance_id := 1, role := Refiner\<rparr>)"
    "inpainter_pipeline_attr busy_manager = Some (first_pipe\<lparr>instance_id := 2, role := Inpainter\<rparr>)"
    by (simp_all add: busy_manager_def loaded_manager_def)
  have dev: "device easy_backend busy_manager = ''cuda''"
    by (simp add: device_def busy_manager_def loaded_manager_def new_manager_def easy_backend_def)
  have fp: "first_pipe\<lparr>location := ''cuda'', precision := ''float16''\<rparr> = first_pipe"
    by (simp add: first_pipe_def)
  have off: "pipeline_is_offloaded (offload_pipeline busy_manager)"
    by (simp add: offload_pipeline_def pipeline_is_offloaded_def a busy_manager_def loaded_manager_def
        new_manager_def)
  have rel: "reload_pipeline easy_backend (offload_pipeline busy_manager)
      = (Returned (), busy_manager\<lparr>pipeline_is_offloaded_attr := Some False\<rparr>)"
    by (simp add: reload_pipeline_def offload_pipeline_def pipeline_is_offloaded_def dtype_def device_def
        pipe_to_def busy_manager_def loaded_manager_def new_manager_def easy_backend_def first_pipe_def)
  have c: "constructions busy_manager = 3" by (simp add: busy_manager_def)
  have fr: "first_pipe\<lparr>instance_id := 1, role := Refiner, location := ''cuda'', precision := ''float16''\<rparr>
      = first_pipe\<lparr>instance_id := 1, role := Refiner\<rparr>"
    "first_pipe\<lparr>instance_id := 2, role := Inpainter, location := ''cuda'', precision := ''float16''\<rparr>
      = first_pipe\<lparr>instance_id := 2, role := Inpainter\<rparr>"
    by (simp_all add: first_pipe_def)
  note T = offload_reload_round_trip[OF d, of first_pipe easy_backend
      "first_pipe\<lparr>instance_id := 1, role := Refiner\<rparr>" "first_pipe\<lparr>instance_id := 2, role := Inpainter\<rparr>",
      unfolded dev]
  from T a(1) obtain m1 where "reload_pipeline easy_backend (offload_pipeline busy_manager) = (Returned (), m1)"
    and "pipeline easy_backend m1 = (Returned (first_pipe\<lparr>location := ''cuda'', precision := ''float16''\<rparr>), m1)"
    by blast
  with rel fp have P: "pipeline easy_backend (busy_manager\<lparr>pipeline_is_offloaded_attr := Some False\<rparr>)
       = (Returned first_pipe, busy_manager\<lparr>pipeline_is_offloaded_attr := Some False\<rparr>)"
    by simp
  from T a(2) c fr(1) have R: "\<exists>m'. reload_refiner easy_backend (offload_refiner busy_manager) = (Returned (), m')
           \<and> refiner_pipeline_attr m' = Some (first_pipe\<lparr>instance_id := 1, role := Refiner\<rparr>)
           \<and> constructions m' = 3"
    by auto
  from T a(3) c fr(2) have Q: "\<exists>m'. reload_inpainter easy_backend (offload_inpainter busy_manager) = (Returned (), m')
           \<and> inpainter_pipeline_attr m' = Some (first_pipe\<lparr>instance_id := 2, role := Inpainter\<rparr>)
           \<and> constructions m' = 3"
    by auto
  from d a off rel P R Q show ?thesis by blast
qed

subsection \<open>Setters: unload or change in place\<close>


lemma constructor_caches_dtype:
  "pipeline_attr m = None \<Longrightarrow> pipeline b m = (Returned p, m') \<Longrightarrow>
   torch_dtype_attr m' \<noteq> None \<and> pipeline_attr m' = Some p \<and> constructions m' = Suc (constructions m)"
  by (auto simp: pipeline_def Let_def size_getter_def split: option.splits outcome.splits prod.splits)





















subsection \<open>Refinement of images smaller than the refiner size\<close>











lemmas sample_defs = refining_manager_def loaded_manager_def new_manager_def empty_config_def
  easy_backend_def first_pipe_def no_params_def first_result_def empty_frame_def

lemmas manager_defs = start_keepalive_def stop_keepalive_def size_getter_def pipeline_def
  switch_away_def pipeline_switch_mode_def offload_pipeline_def offload_inpainter_def offload_refiner_def
  reload_pipeline_def reload_refiner_def pipeline_is_offloaded_def inpainter_is_offloaded_def
  refiner_is_offloaded_def refiner_def refiner_size_def refiner_pipeline_def dtype_def device_def
  pipe_to_def chunking_size_def DEFAULT_CHUNK_def DEFAULT_SIZE_def
  refiner_strength_def refiner_guidance_scale_def refiner_aesthetic_score_def
  refiner_negative_aesthetic_score_def or_else_def resize_def
  tensorrt_is_enabled_setter_def tensorrt_is_enabled_def tensorrt_is_ready_def less_than_size_def







subsection \<open>Refinement at strength zero\<close>

lemma refine_skips:
  "refiner_strength_arg ps = Some s \<Longrightarrow> s \<le> 0 \<Longrightarrow> refine b ps inpainting kwargs result m = (Returned result, m)"
  by (simp add: refine_def)

lemma refine_without_refiner:
  "refiner m = None \<Longrightarrow> refine b ps inpainting kwargs result m = (Returned result, m)"
  by (simp add: refine_def)


end
